theory Spec2Isabelle
  imports Complex_Main
begin

section \<open>Data model\<close>

text \<open>
  A JavaScript number is modelled by its exact value, a rational; the arithmetic of the
  handlers rounds every result to the nearest double, as the section on double
  arithmetic below defines it. NaN and the infinities (a result beyond the largest
  double) are outside the model, and the two zeros are one. An optional field
  (\<open>field?: string\<close>) is an \<open>option\<close>; \<open>None\<close> is \<open>undefined\<close>.
\<close>

datatype UserRole = ADMIN | MANAGER | USER

datatype CommissionStatus = UNPAID | ELIGIBLE | PAID

record Profile =
  profile_id :: string
  email :: string
  full_name :: string
  avatar_url :: "string option"
  role :: UserRole
  team_id :: "string option"
  default_commission_rate :: rat

record CommissionEntry =
  id' :: string
  user_id :: string
  invoice_number :: string
  receipt_number :: "string option"
  customer :: string
  project :: string
  amount_before_vat :: rat
  cost_before_vat :: rat
  commission_rate :: rat
  tax :: rat
  net_total :: rat
  net_to_pay :: rat
  invoice_month :: string
  client_paid_date :: "string option"
  commission_status :: CommissionStatus
  company_paid_date :: "string option"
  note' :: "string option"
  file_name :: "string option"

text \<open>The keys of a commission entry (\<open>keyof CommissionEntry\<close>).\<close>

datatype field =
    F_id | F_user_id | F_invoice_number | F_receipt_number | F_customer | F_project
  | F_amount_before_vat | F_cost_before_vat | F_commission_rate | F_tax
  | F_net_total | F_net_to_pay | F_invoice_month | F_client_paid_date
  | F_commission_status | F_company_paid_date | F_note | F_file_name

section \<open>JavaScript helpers\<close>

text \<open>Truthiness of an optional string: \<open>undefined\<close> and \<open>''\<close> are falsy.\<close>

definition truthy_str :: "string option \<Rightarrow> bool" where
  "truthy_str v = (case v of None \<Rightarrow> False | Some s \<Rightarrow> s \<noteq> [])"

text \<open>Truthiness of an optional number: \<open>undefined\<close> and \<open>0\<close> are falsy.\<close>

definition truthy_num :: "rat option \<Rightarrow> bool" where
  "truthy_num v = (case v of None \<Rightarrow> False | Some r \<Rightarrow> r \<noteq> 0)"

text \<open>
  \<open>Number(v) || d\<close> for an optional number (\<open>Number(undefined)\<close> is NaN, which is falsy);
  \<open>v ? Number(v) : d\<close> has the same value.
\<close>

definition num_or :: "rat option \<Rightarrow> rat \<Rightarrow> rat" where
  "num_or v d = (case v of None \<Rightarrow> d | Some r \<Rightarrow> if r = 0 then d else r)"

text \<open>\<open>s || d\<close> for an optional string.\<close>

definition str_or :: "string option \<Rightarrow> string \<Rightarrow> string" where
  "str_or v d = (case v of None \<Rightarrow> d | Some s \<Rightarrow> if s = [] then d else s)"

text \<open>
  \<open>toLowerCase\<close> and \<open>toUpperCase\<close> on the ASCII letters; other characters are kept
  (the case mappings of non-ASCII characters are not modelled).
\<close>

definition lower_char :: "char \<Rightarrow> char" where
  "lower_char c = (let n = (of_char c :: nat) in
     if 65 \<le> n \<and> n \<le> 90 then char_of (n + 32) else c)"

definition upper_char :: "char \<Rightarrow> char" where
  "upper_char c = (let n = (of_char c :: nat) in
     if 97 \<le> n \<and> n \<le> 122 then char_of (n - 32) else c)"

definition toLowerCase :: "string \<Rightarrow> string" where
  "toLowerCase s = map lower_char s"

definition toUpperCase :: "string \<Rightarrow> string" where
  "toUpperCase s = map upper_char s"

text \<open>\<open>trim\<close>, on the ASCII white space (tab, line feed, vertical tab, form feed,
  carriage return, space).\<close>

definition is_ws :: "char \<Rightarrow> bool" where
  "is_ws c = (let n = (of_char c :: nat) in (9 \<le> n \<and> n \<le> 13) \<or> n = 32)"

definition trim :: "string \<Rightarrow> string" where
  "trim s = rev (dropWhile is_ws (rev (dropWhile is_ws s)))"

section \<open>Double arithmetic\<close>

text \<open>
  IEEE 754 binary64, on exact values: a result is rounded to the nearest number with a
  53-bit significand (an exponent of at least -1074, which gives the subnormal numbers),
  and of two equally near numbers to the one with the even significand.
\<close>

definition pow2 :: "int \<Rightarrow> rat" where
  "pow2 k = (if 0 \<le> k then 2 ^ nat k else 1 / 2 ^ nat (- k))"

text \<open>The number of binary digits of a natural number.\<close>

fun bitlen :: "nat \<Rightarrow> nat" where
  "bitlen n = (if n = 0 then 0 else Suc (bitlen (n div 2)))"

text \<open>
  \<open>ilog2 a\<close>, for \<open>a > 0\<close>, is the \<open>k\<close> with \<open>2^k \<le> a < 2^(k+1)\<close>: an estimate from the
  digits of the integer part (of \<open>a\<close>, or of \<open>1 / a\<close> below 1), one too small only at an
  exact power of two below 1.
\<close>

definition ilog2_estimate :: "rat \<Rightarrow> int" where
  "ilog2_estimate a = (if 1 \<le> a then int (bitlen (nat \<lfloor>a\<rfloor>)) - 1
                       else - int (bitlen (nat \<lfloor>1 / a\<rfloor>)))"

definition ilog2_adjust :: "rat \<Rightarrow> int \<Rightarrow> int" where
  "ilog2_adjust a k = (if pow2 (k + 1) \<le> a then k + 1 else k)"

definition ilog2 :: "rat \<Rightarrow> int" where
  "ilog2 a = ilog2_adjust a (ilog2_estimate a)"

text \<open>The integer nearest to \<open>y\<close>, the even one of two equally near; \<open>f\<close> is \<open>\<lfloor>y\<rfloor>\<close>.\<close>

definition round_pick :: "rat \<Rightarrow> int \<Rightarrow> int" where
  "round_pick y f = (if y - of_int f < 1 / 2 then f
                     else if y - of_int f > 1 / 2 then f + 1
                     else if even f then f else f + 1)"

definition round_even :: "rat \<Rightarrow> int" where
  "round_even y = round_pick y \<lfloor>y\<rfloor>"

text \<open>\<open>a > 0\<close> rounded to a multiple of \<open>2^e\<close>.\<close>

definition fl_scale :: "rat \<Rightarrow> int \<Rightarrow> rat" where
  "fl_scale a e = of_int (round_even (a / pow2 e)) * pow2 e"

text \<open>
  The double nearest to \<open>x\<close>: the value of a numeric literal, and the rounding that
  every arithmetic operation applies to its exact result.
\<close>

definition to_double :: "rat \<Rightarrow> rat" where
  "to_double x = (if x = 0 then 0
                  else sgn x * fl_scale \<bar>x\<bar> (max (ilog2 \<bar>x\<bar> - 52) (- 1074)))"

text \<open>
  \<open>a + b\<close>, \<open>a - b\<close>, \<open>a * b\<close> and \<open>a / b\<close> on numbers. (The handlers divide by the
  literal \<open>100\<close> only; division by zero is not modelled.)
\<close>

definition js_add :: "rat \<Rightarrow> rat \<Rightarrow> rat" where
  "js_add a b = to_double (a + b)"

definition js_sub :: "rat \<Rightarrow> rat \<Rightarrow> rat" where
  "js_sub a b = to_double (a - b)"

definition js_mul :: "rat \<Rightarrow> rat \<Rightarrow> rat" where
  "js_mul a b = to_double (a * b)"

definition js_div :: "rat \<Rightarrow> rat \<Rightarrow> rat" where
  "js_div a b = to_double (a / b)"

section \<open>Application state handlers (App)\<close>

text \<open>The seed data: the demo profiles and entries stored when nothing is persisted.\<close>

definition MOCK_PROFILES :: "Profile list" where
  "MOCK_PROFILES =
     [\<lparr>profile_id = ''user-admin'', email = ''admin@base44.com'', full_name = ''Admin Alice'',
       avatar_url = None, role = ADMIN, team_id = Some ''team-2'', default_commission_rate = 5\<rparr>,
      \<lparr>profile_id = ''user-manager'', email = ''manager@base44.com'', full_name = ''Manager Bob'',
       avatar_url = None, role = MANAGER, team_id = Some ''team-1'', default_commission_rate = 5\<rparr>,
      \<lparr>profile_id = ''user-1'', email = ''freelancer@base44.com'', full_name = ''Alex Freelancer'',
       avatar_url = None, role = USER, team_id = Some ''team-1'', default_commission_rate = 5\<rparr>,
      \<lparr>profile_id = ''user-2'', email = ''designer@base44.com'', full_name = ''Sarah Designer'',
       avatar_url = None, role = USER, team_id = Some ''team-1'', default_commission_rate = 5\<rparr>]"

definition MOCK_ENTRY_1 :: CommissionEntry where
  "MOCK_ENTRY_1 =
     \<lparr>id' = ''1'', user_id = ''user-1'', invoice_number = ''INV-2023-001'',
      receipt_number = Some ''TI20230099'', customer = ''Acme Corp'', project = ''Website Redesign'',
      amount_before_vat = 5000, cost_before_vat = 500, commission_rate = 5, tax = 0,
      net_total = 4500, net_to_pay = 225, invoice_month = ''2023-10-01'',
      client_paid_date = Some ''2023-10-15'', commission_status = PAID,
      company_paid_date = None, note' = Some ''Initial deposit'',
      file_name = Some ''invoice_001.pdf''\<rparr>"

definition MOCK_ENTRY_2 :: CommissionEntry where
  "MOCK_ENTRY_2 =
     \<lparr>id' = ''2'', user_id = ''user-1'', invoice_number = ''INV-2023-005'',
      receipt_number = None, customer = ''Stark Industries'', project = ''Security Audit'',
      amount_before_vat = 12000, cost_before_vat = 0, commission_rate = 5, tax = 0,
      net_total = 12000, net_to_pay = 600, invoice_month = ''2023-11-15'',
      client_paid_date = None, commission_status = ELIGIBLE,
      company_paid_date = None, note' = None, file_name = Some ''stark_inv.pdf''\<rparr>"

definition MOCK_ENTRY_3 :: CommissionEntry where
  "MOCK_ENTRY_3 =
     \<lparr>id' = ''3'', user_id = ''user-2'', invoice_number = ''INV-2023-999'',
      receipt_number = None, customer = ''Wayne Enterprises'', project = ''Logo Design'',
      amount_before_vat = 8000, cost_before_vat = 0, commission_rate = 5, tax = 0,
      net_total = 8000, net_to_pay = 400, invoice_month = ''2023-11-20'',
      client_paid_date = None, commission_status = UNPAID,
      company_paid_date = None, note' = None, file_name = None\<rparr>"

definition MOCK_ENTRIES :: "CommissionEntry list" where
  "MOCK_ENTRIES = [MOCK_ENTRY_1, MOCK_ENTRY_2, MOCK_ENTRY_3]"

text \<open>\<open>handleSaveCommission\<close>: \<open>[entry, ...commissions]\<close>.\<close>

definition handleSaveCommission :: "CommissionEntry \<Rightarrow> CommissionEntry list \<Rightarrow> CommissionEntry list" where
  "handleSaveCommission entry commissions = entry # commissions"

text \<open>\<open>handleAddCommission\<close>: \<open>prev => [entry, ...prev]\<close>.\<close>

definition handleAddCommission :: "CommissionEntry \<Rightarrow> CommissionEntry list \<Rightarrow> CommissionEntry list" where
  "handleAddCommission entry prev = entry # prev"

definition handleDeleteCommission :: "string \<Rightarrow> CommissionEntry list \<Rightarrow> CommissionEntry list" where
  "handleDeleteCommission i prev = filter (\<lambda>c. id' c \<noteq> i) prev"

text \<open>
  \<open>handleUpdateCommission\<close>: the derived fields are recomputed from the entry's amount,
  cost and rate, then every entry with the same id is replaced.
\<close>

definition recalculate :: "CommissionEntry \<Rightarrow> CommissionEntry" where
  "recalculate updatedEntry =
     (let netTotal = js_sub (amount_before_vat updatedEntry) (cost_before_vat updatedEntry);
          netToPay = js_mul netTotal (js_div (commission_rate updatedEntry) 100)
      in updatedEntry\<lparr>net_total := netTotal, net_to_pay := netToPay\<rparr>)"

definition handleUpdateCommission :: "CommissionEntry \<Rightarrow> CommissionEntry list \<Rightarrow> CommissionEntry list" where
  "handleUpdateCommission updatedEntry prev =
     (let entry = recalculate updatedEntry
      in map (\<lambda>c. if id' c = id' entry then entry else c) prev)"

section \<open>Commission table (CommissionList)\<close>

subsection \<open>Inline edits\<close>

text \<open>
  A call \<open>handleInlineUpdate(id, field, value)\<close> carries a key and a value; the two are
  modelled together, by the type of the field. For the four fields that the handler
  coerces (\<open>amount_before_vat\<close>, \<open>cost_before_vat\<close>, \<open>commission_rate\<close>, \<open>tax\<close>) the
  payload is the number \<open>Number(value)\<close>. The table has inputs for the month, the
  invoice number, customer, project, amount, cost, rate, the two dates, the receipt
  number and the status; the other keys, the two derived fields among them, are in the
  type of the handler only.
\<close>

datatype edit =
    E_id string | E_user_id string | E_invoice_number string | E_receipt_number string
  | E_customer string | E_project string
  | E_amount_before_vat rat | E_cost_before_vat rat | E_commission_rate rat | E_tax rat
  | E_net_total rat | E_net_to_pay rat
  | E_invoice_month string | E_client_paid_date string
  | E_commission_status CommissionStatus | E_company_paid_date string
  | E_note string | E_file_name string

fun field_of :: "edit \<Rightarrow> field" where
  "field_of (E_id v) = F_id"
| "field_of (E_user_id v) = F_user_id"
| "field_of (E_invoice_number v) = F_invoice_number"
| "field_of (E_receipt_number v) = F_receipt_number"
| "field_of (E_customer v) = F_customer"
| "field_of (E_project v) = F_project"
| "field_of (E_amount_before_vat v) = F_amount_before_vat"
| "field_of (E_cost_before_vat v) = F_cost_before_vat"
| "field_of (E_commission_rate v) = F_commission_rate"
| "field_of (E_tax v) = F_tax"
| "field_of (E_net_total v) = F_net_total"
| "field_of (E_net_to_pay v) = F_net_to_pay"
| "field_of (E_invoice_month v) = F_invoice_month"
| "field_of (E_client_paid_date v) = F_client_paid_date"
| "field_of (E_commission_status v) = F_commission_status"
| "field_of (E_company_paid_date v) = F_company_paid_date"
| "field_of (E_note v) = F_note"
| "field_of (E_file_name v) = F_file_name"

text \<open>\<open>validateField\<close>: the four checks, in the order of the source; everything else is valid.\<close>

fun validateField :: "edit \<Rightarrow> bool" where
  "validateField (E_amount_before_vat v) = (\<not> v < 0)"
| "validateField (E_cost_before_vat v) = (\<not> v < 0)"
| "validateField (E_commission_rate v) = (\<not> (v < 0 \<or> v > 100))"
| "validateField (E_invoice_number v) = (\<not> (v = [] \<or> trim v = []))"
| "validateField _ = True"

text \<open>\<open>{ ...entry, [field]: updatedValue }\<close>.\<close>

fun apply_edit :: "CommissionEntry \<Rightarrow> edit \<Rightarrow> CommissionEntry" where
  "apply_edit entry (E_id v) = entry\<lparr>id' := v\<rparr>"
| "apply_edit entry (E_user_id v) = entry\<lparr>user_id := v\<rparr>"
| "apply_edit entry (E_invoice_number v) = entry\<lparr>invoice_number := v\<rparr>"
| "apply_edit entry (E_receipt_number v) = entry\<lparr>receipt_number := Some v\<rparr>"
| "apply_edit entry (E_customer v) = entry\<lparr>customer := v\<rparr>"
| "apply_edit entry (E_project v) = entry\<lparr>project := v\<rparr>"
| "apply_edit entry (E_amount_before_vat v) = entry\<lparr>amount_before_vat := v\<rparr>"
| "apply_edit entry (E_cost_before_vat v) = entry\<lparr>cost_before_vat := v\<rparr>"
| "apply_edit entry (E_commission_rate v) = entry\<lparr>commission_rate := v\<rparr>"
| "apply_edit entry (E_tax v) = entry\<lparr>tax := v\<rparr>"
| "apply_edit entry (E_net_total v) = entry\<lparr>net_total := v\<rparr>"
| "apply_edit entry (E_net_to_pay v) = entry\<lparr>net_to_pay := v\<rparr>"
| "apply_edit entry (E_invoice_month v) = entry\<lparr>invoice_month := v\<rparr>"
| "apply_edit entry (E_client_paid_date v) = entry\<lparr>client_paid_date := Some v\<rparr>"
| "apply_edit entry (E_commission_status v) = entry\<lparr>commission_status := v\<rparr>"
| "apply_edit entry (E_company_paid_date v) = entry\<lparr>company_paid_date := Some v\<rparr>"
| "apply_edit entry (E_note v) = entry\<lparr>note' := Some v\<rparr>"
| "apply_edit entry (E_file_name v) = entry\<lparr>file_name := Some v\<rparr>"

text \<open>\<open>field === 'commission_status' && updatedValue === CommissionStatus.PAID\<close>.\<close>

fun is_paid_edit :: "edit \<Rightarrow> bool" where
  "is_paid_edit (E_commission_status v) = (v = PAID)"
| "is_paid_edit _ = False"

text \<open>\<open>field === 'client_paid_date' && updatedValue\<close>.\<close>

fun is_client_date_edit :: "edit \<Rightarrow> bool" where
  "is_client_date_edit (E_client_paid_date v) = (v \<noteq> [])"
| "is_client_date_edit _ = False"

text \<open>
  What one call of \<open>handleInlineUpdate\<close> does: the new \<open>invalidFields\<close> (keyed by id and
  field), whether \<open>window.prompt\<close> was shown, and the entry handed to \<open>onUpdate\<close>, if any.
\<close>

record inline_result =
  invalidFields :: "(string \<times> field) \<rightharpoonup> bool"
  prompted :: bool
  onUpdate :: "CommissionEntry option"

text \<open>
  \<open>promptAnswer\<close> is what \<open>window.prompt\<close> returns when it is shown: \<open>None\<close> when the
  user cancels, the text otherwise.
\<close>

definition handleInlineUpdate ::
  "bool \<Rightarrow> CommissionEntry list \<Rightarrow> ((string \<times> field) \<rightharpoonup> bool) \<Rightarrow> string option
     \<Rightarrow> string \<Rightarrow> edit \<Rightarrow> inline_result" where
  "handleInlineUpdate isViewReadOnly activeEntries invalid promptAnswer i e =
     (if isViewReadOnly
      then \<lparr>invalidFields = invalid, prompted = False, onUpdate = None\<rparr>
      else
        let isValid = validateField e;
            invalid2 = invalid((i, field_of e) \<mapsto> \<not> isValid)
        in case find (\<lambda>x. id' x = i) activeEntries of
             None \<Rightarrow> \<lparr>invalidFields = invalid2, prompted = False, onUpdate = None\<rparr>
           | Some entry \<Rightarrow>
               let updatedEntry = apply_edit entry e;
                   asks = (is_paid_edit e \<and> \<not> truthy_str (company_paid_date entry))
               in if asks \<and> truthy_str promptAnswer
                  then \<lparr>invalidFields = invalid2, prompted = True,
                        onUpdate = Some (updatedEntry\<lparr>company_paid_date := promptAnswer\<rparr>)\<rparr>
                  else \<lparr>invalidFields = invalid2, prompted = asks,
                        onUpdate = Some
                          (if is_client_date_edit e \<and> commission_status entry = UNPAID
                           then updatedEntry\<lparr>commission_status := ELIGIBLE\<rparr>
                           else updatedEntry)\<rparr>)"

text \<open>
  The table wired to the application: \<open>onUpdate\<close> is \<open>handleUpdateCommission\<close>. When the
  handler returns before \<open>onUpdate\<close>, the collection is the one before.
\<close>

definition inline_edit ::
  "bool \<Rightarrow> CommissionEntry list \<Rightarrow> string option \<Rightarrow> string \<Rightarrow> edit
     \<Rightarrow> CommissionEntry list \<Rightarrow> CommissionEntry list" where
  "inline_edit isViewReadOnly activeEntries promptAnswer i e commissions =
     (case onUpdate (handleInlineUpdate isViewReadOnly activeEntries Map.empty promptAnswer i e) of
        None \<Rightarrow> commissions
      | Some updatedEntry \<Rightarrow> handleUpdateCommission updatedEntry commissions)"

subsection \<open>The manual add form\<close>

text \<open>The form state \<open>newEntry: Partial<CommissionEntry>\<close>, with the fields the form reads.\<close>

record PartialEntry =
  ne_invoice_number :: "string option"
  ne_receipt_number :: "string option"
  ne_customer :: "string option"
  ne_project :: "string option"
  ne_amount_before_vat :: "rat option"
  ne_cost_before_vat :: "rat option"
  ne_commission_rate :: "rat option"
  ne_tax :: "rat option"
  ne_invoice_month :: "string option"
  ne_note :: "string option"
  ne_file_name :: "string option"

record add_result =
  alerted :: bool
  confirm_asked :: bool
  onAdd :: "CommissionEntry option"

text \<open>
  \<open>handleAddSubmit\<close>. The first test returns when a required field is falsy
  (\<open>undefined\<close>, the empty string, or the number \<open>0\<close>). \<open>confirmAnswer\<close> is what
  \<open>window.confirm\<close> returns when it is shown; \<open>uuid\<close> is the value of
  \<open>crypto.randomUUID()\<close>.
\<close>

definition handleAddSubmit ::
  "Profile \<Rightarrow> CommissionEntry list \<Rightarrow> PartialEntry \<Rightarrow> bool \<Rightarrow> string \<Rightarrow> add_result" where
  "handleAddSubmit user activeEntries newEntry confirmAnswer uuid =
     (case (ne_invoice_number newEntry, ne_amount_before_vat newEntry, ne_invoice_month newEntry) of
        (Some invNo, Some amount, Some month) \<Rightarrow>
          if invNo = [] \<or> amount = 0 \<or> month = []
          then \<lparr>alerted = True, confirm_asked = False, onAdd = None\<rparr>
          else
            let dup = list_ex (\<lambda>e. toLowerCase (invoice_number e) = toLowerCase invNo) activeEntries
            in if dup \<and> \<not> confirmAnswer
               then \<lparr>alerted = False, confirm_asked = True, onAdd = None\<rparr>
               else
                 let cost = num_or (ne_cost_before_vat newEntry) 0;
                     rate = num_or (ne_commission_rate newEntry) (default_commission_rate user);
                     netTotal = js_sub amount cost;
                     netToPay = js_mul netTotal (js_div rate 100)
                 in \<lparr>alerted = False, confirm_asked = dup,
                     onAdd = Some
                       \<lparr>id' = uuid,
                        user_id = profile_id user,
                        invoice_number = invNo,
                        receipt_number = ne_receipt_number newEntry,
                        customer = str_or (ne_customer newEntry) ''Unknown'',
                        project = str_or (ne_project newEntry) [],
                        amount_before_vat = amount,
                        cost_before_vat = cost,
                        commission_rate = rate,
                        tax = num_or (ne_tax newEntry) 0,
                        net_total = netTotal,
                        net_to_pay = netToPay,
                        invoice_month = month,
                        client_paid_date = None,
                        commission_status = UNPAID,
                        company_paid_date = None,
                        note' = ne_note newEntry,
                        file_name = ne_file_name newEntry\<rparr>\<rparr>
      | _ \<Rightarrow> \<lparr>alerted = True, confirm_asked = False, onAdd = None\<rparr>)"

text \<open>
  The form with its \<open>onAdd\<close> prop: the collection after one submit. When the handler
  returns before \<open>onAdd\<close>, the collection is the one before.
\<close>

definition manual_add ::
  "(CommissionEntry \<Rightarrow> CommissionEntry list \<Rightarrow> CommissionEntry list)
     \<Rightarrow> Profile \<Rightarrow> CommissionEntry list \<Rightarrow> PartialEntry \<Rightarrow> bool \<Rightarrow> string
     \<Rightarrow> CommissionEntry list \<Rightarrow> CommissionEntry list" where
  "manual_add onAddProp user activeEntries newEntry confirmAnswer uuid commissions =
     (case onAdd (handleAddSubmit user activeEntries newEntry confirmAnswer uuid) of
        None \<Rightarrow> commissions
      | Some entry \<Rightarrow> onAddProp entry commissions)"

subsection \<open>The two places of the table\<close>

datatype viewMode = personal | team

text \<open>\<open>myCommissions\<close> and \<open>teamCommissions\<close> of the application.\<close>

definition myCommissions :: "Profile \<Rightarrow> CommissionEntry list \<Rightarrow> CommissionEntry list" where
  "myCommissions user commissions = filter (\<lambda>c. user_id c = profile_id user) commissions"

definition teamCommissions ::
  "Profile \<Rightarrow> Profile list \<Rightarrow> CommissionEntry list \<Rightarrow> CommissionEntry list" where
  "teamCommissions user profiles commissions =
     (if role user \<noteq> MANAGER \<or> \<not> truthy_str (team_id user) then []
      else
        let teamMemberIds = map profile_id
              (filter (\<lambda>p. team_id p = team_id user \<and> profile_id p \<noteq> profile_id user) profiles)
        in filter (\<lambda>c. user_id c \<in> set teamMemberIds) commissions)"

text \<open>\<open>activeEntries\<close> of the table: the team's entries for a manager in team mode.\<close>

definition activeEntries_of ::
  "Profile \<Rightarrow> viewMode \<Rightarrow> CommissionEntry list \<Rightarrow> CommissionEntry list \<Rightarrow> CommissionEntry list" where
  "activeEntries_of user vm entries teamEntries =
     (if role user = MANAGER \<and> vm = team then teamEntries else entries)"

text \<open>
  The commissions view: the table gets \<open>myCommissions\<close>, \<open>teamCommissions\<close> and
  \<open>onAdd = handleAddCommission\<close>.
\<close>

definition commissions_view_add ::
  "Profile \<Rightarrow> Profile list \<Rightarrow> viewMode \<Rightarrow> PartialEntry \<Rightarrow> bool \<Rightarrow> string
     \<Rightarrow> CommissionEntry list \<Rightarrow> CommissionEntry list" where
  "commissions_view_add user profiles vm newEntry confirmAnswer uuid commissions =
     manual_add handleAddCommission user
       (activeEntries_of user vm (myCommissions user commissions)
          (teamCommissions user profiles commissions))
       newEntry confirmAnswer uuid commissions"

text \<open>
  The admin panel: the table gets all entries, no team entries (it stays in personal
  mode) and \<open>onAdd = () => {}\<close>.
\<close>

definition admin_panel_add ::
  "Profile \<Rightarrow> PartialEntry \<Rightarrow> bool \<Rightarrow> string \<Rightarrow> CommissionEntry list \<Rightarrow> CommissionEntry list" where
  "admin_panel_add currentUser newEntry confirmAnswer uuid allCommissions =
     manual_add (\<lambda>entry prev. prev) currentUser
       (activeEntries_of currentUser personal allCommissions [])
       newEntry confirmAnswer uuid allCommissions"

subsection \<open>The sort comparator\<close>

text \<open>
  The value \<open>a[sortConfig.key]\<close> is a string, a number or \<open>undefined\<close> (\<open>None\<close>; the
  entries hold no \<open>null\<close>, which the comparator treats as it treats \<open>undefined\<close>). The
  status is a string enum, compared by its string.
\<close>

datatype keyval = KStr string | KNum rat

fun status_string :: "CommissionStatus \<Rightarrow> string" where
  "status_string UNPAID = ''unpaid''"
| "status_string ELIGIBLE = ''eligible''"
| "status_string PAID = ''paid''"

fun get_field :: "field \<Rightarrow> CommissionEntry \<Rightarrow> keyval option" where
  "get_field F_id e = Some (KStr (id' e))"
| "get_field F_user_id e = Some (KStr (user_id e))"
| "get_field F_invoice_number e = Some (KStr (invoice_number e))"
| "get_field F_receipt_number e = map_option KStr (receipt_number e)"
| "get_field F_customer e = Some (KStr (customer e))"
| "get_field F_project e = Some (KStr (project e))"
| "get_field F_amount_before_vat e = Some (KNum (amount_before_vat e))"
| "get_field F_cost_before_vat e = Some (KNum (cost_before_vat e))"
| "get_field F_commission_rate e = Some (KNum (commission_rate e))"
| "get_field F_tax e = Some (KNum (tax e))"
| "get_field F_net_total e = Some (KNum (net_total e))"
| "get_field F_net_to_pay e = Some (KNum (net_to_pay e))"
| "get_field F_invoice_month e = Some (KStr (invoice_month e))"
| "get_field F_client_paid_date e = map_option KStr (client_paid_date e)"
| "get_field F_commission_status e = Some (KStr (status_string (commission_status e)))"
| "get_field F_company_paid_date e = map_option KStr (company_paid_date e)"
| "get_field F_note e = map_option KStr (note' e)"
| "get_field F_file_name e = map_option KStr (file_name e)"

text \<open>\<open><\<close> on two strings: lexicographic, by character code.\<close>

fun str_lt :: "string \<Rightarrow> string \<Rightarrow> bool" where
  "str_lt [] [] = False"
| "str_lt [] (y # ys) = True"
| "str_lt (x # xs) [] = False"
| "str_lt (x # xs) (y # ys) =
     (if x = y then str_lt xs ys else (of_char x :: nat) < of_char y)"

text \<open>
  \<open><\<close> on two key values. The two values of one column have the same type; for a
  string against a number (which no column produces) the model answers \<open>False\<close>.
\<close>

fun js_lt :: "keyval \<Rightarrow> keyval \<Rightarrow> bool" where
  "js_lt (KStr a) (KStr b) = str_lt a b"
| "js_lt (KNum a) (KNum b) = (a < b)"
| "js_lt _ _ = False"

datatype direction = asc | desc

text \<open>The function given to \<open>result.sort\<close>, for \<open>sortConfig = { key, direction }\<close>.\<close>

definition sort_comparator :: "field \<Rightarrow> direction \<Rightarrow> CommissionEntry \<Rightarrow> CommissionEntry \<Rightarrow> int" where
  "sort_comparator key dir a b =
     (let aValue = get_field key a; bValue = get_field key b
      in if aValue = bValue then 0
         else case (aValue, bValue) of
                (None, _) \<Rightarrow> 1
              | (_, None) \<Rightarrow> - 1
              | (Some x, Some y) \<Rightarrow>
                  let comparison = (if js_lt x y then - 1 else 1)
                  in if dir = asc then comparison else - comparison)"

subsection \<open>Export\<close>

text \<open>
  A row of the sheet is a JavaScript object: its keys in order, each with a string or a
  number. \<open>localeDate\<close> and \<open>localeMonth\<close> stand for
  \<open>new Date(d).toLocaleDateString('en-GB')\<close> and
  \<open>new Date(d).toLocaleDateString('en-US', { month: 'short', year: 'numeric' })\<close>.
\<close>

datatype cell = CStr string | CNum rat

type_synonym row = "(string \<times> cell) list"

definition fmtDate :: "(string \<Rightarrow> string) \<Rightarrow> string option \<Rightarrow> string" where
  "fmtDate localeDate d = (case d of None \<Rightarrow> [] | Some v \<Rightarrow> if v = [] then [] else localeDate v)"

definition fmtMonth :: "(string \<Rightarrow> string) \<Rightarrow> string \<Rightarrow> string" where
  "fmtMonth localeMonth d = (if d = [] then [] else localeMonth d)"

text \<open>\<open>profiles.find(p => p.id === id)?.full_name || id\<close>.\<close>

definition getUserName :: "Profile list \<Rightarrow> string \<Rightarrow> string" where
  "getUserName profiles i =
     (case find (\<lambda>p. profile_id p = i) profiles of
        None \<Rightarrow> i
      | Some p \<Rightarrow> if full_name p = [] then i else full_name p)"

definition export_row ::
  "(string \<Rightarrow> string) \<Rightarrow> (string \<Rightarrow> string) \<Rightarrow> Profile list \<Rightarrow> bool \<Rightarrow> viewMode
     \<Rightarrow> CommissionEntry \<Rightarrow> row" where
  "export_row localeDate localeMonth profiles allowUserFilter vm e =
     (if allowUserFilter \<or> vm = team
      then [(''Freelancer'', CStr (getUserName profiles (user_id e)))] else []) @
     [(''Invoice Number'', CStr (invoice_number e)),
      (''Receipt Number'', CStr (str_or (receipt_number e) [])),
      (''Customer'', CStr (customer e)),
      (''Project'', CStr (project e)),
      (''Amount Before VAT'', CNum (amount_before_vat e)),
      (''Cost Before VAT'', CNum (cost_before_vat e)),
      (''Commission Rate (%)'', CNum (commission_rate e)),
      (''Net Total'', CNum (net_total e)),
      (''Net to Pay'', CNum (net_to_pay e)),
      (''Tax'', CNum (tax e)),
      (''Invoice Month'', CStr (fmtMonth localeMonth (invoice_month e))),
      (''Client Paid Date'', CStr (fmtDate localeDate (client_paid_date e))),
      (''Status'', CStr (status_string (commission_status e))),
      (''Company Paid Date'', CStr (fmtDate localeDate (company_paid_date e))),
      (''Note'', CStr (str_or (note' e) []))]"

text \<open>\<open>filteredEntries.reduce((sum, e) => sum + f(e), 0)\<close>.\<close>

definition reduce_sum :: "(CommissionEntry \<Rightarrow> rat) \<Rightarrow> CommissionEntry list \<Rightarrow> rat" where
  "reduce_sum f es = foldl (\<lambda>sum e. js_add sum (f e)) 0 es"

definition totalsRow :: "bool \<Rightarrow> viewMode \<Rightarrow> CommissionEntry list \<Rightarrow> row" where
  "totalsRow allowUserFilter vm filteredEntries =
     (if allowUserFilter \<or> vm = team then [(''Freelancer'', CStr [])] else []) @
     [(''Invoice Number'', CStr ''TOTALS''),
      (''Receipt Number'', CStr []),
      (''Customer'', CStr []),
      (''Project'', CStr []),
      (''Amount Before VAT'', CNum (reduce_sum amount_before_vat filteredEntries)),
      (''Cost Before VAT'', CNum (reduce_sum cost_before_vat filteredEntries)),
      (''Commission Rate (%)'', CStr []),
      (''Net Total'', CNum (reduce_sum net_total filteredEntries)),
      (''Net to Pay'', CNum (reduce_sum net_to_pay filteredEntries)),
      (''Tax'', CNum (reduce_sum tax filteredEntries)),
      (''Invoice Month'', CStr []),
      (''Client Paid Date'', CStr []),
      (''Status'', CStr []),
      (''Company Paid Date'', CStr []),
      (''Note'', CStr [])]"

text \<open>The workbook handed to \<open>XLSX.writeFile\<close>: one sheet, its rows and column widths.\<close>

record export_file =
  filename :: string
  sheet_name :: string
  data :: "row list"
  wscols :: "nat list"

record export_result =
  export_alerted :: bool
  written :: "export_file option"

definition handleExport ::
  "(string \<Rightarrow> string) \<Rightarrow> (string \<Rightarrow> string) \<Rightarrow> Profile list \<Rightarrow> bool \<Rightarrow> viewMode
     \<Rightarrow> string \<Rightarrow> CommissionEntry list \<Rightarrow> export_result" where
  "handleExport localeDate localeMonth profiles allowUserFilter vm monthFilter filteredEntries =
     (if length filteredEntries = 0 then \<lparr>export_alerted = False, written = None\<rparr>
      else if length filteredEntries > 5000 then \<lparr>export_alerted = True, written = None\<rparr>
      else
        let rows = map (export_row localeDate localeMonth profiles allowUserFilter vm) filteredEntries
                     @ [totalsRow allowUserFilter vm filteredEntries]
        in \<lparr>export_alerted = False,
            written = Some
              \<lparr>filename = (if monthFilter \<noteq> [] then ''Commissions_'' @ monthFilter @ ''.xlsx''
                           else ''Commissions_Export.xlsx''),
               sheet_name = ''Commissions'',
               data = rows,
               wscols = (case rows of [] \<Rightarrow> []
                         | r # _ \<Rightarrow> map (\<lambda>(k, v). max (length k) 12 + 2) r)\<rparr>\<rparr>)"

section \<open>Invoice review (InvoiceReview)\<close>

subsection \<open>Mapping extracted records to draft items\<close>

text \<open>
  Approximate exchange rates (\<open>EXCHANGE_RATES\<close>); each literal is the double nearest to
  it.
\<close>

definition EXCHANGE_RATES :: "string \<rightharpoonup> rat" where
  "EXCHANGE_RATES = map_of
     [(''USD'', to_double 34.5), (''EUR'', to_double 37.5), (''GBP'', to_double 43.8),
      (''JPY'', to_double 0.23), (''AUD'', to_double 22.5), (''SGD'', to_double 25.6),
      (''CNY'', to_double 4.8), (''THB'', to_double 1)]"

text \<open>
  \<open>x.toFixed(2)\<close>, for \<open>0 \<le> x < 10^21\<close>, writes the integer \<open>n\<close> for which \<open>n / 100\<close> is
  nearest to the exact value of \<open>x\<close>, the larger of two equally near, with two decimals.
\<close>

definition toFixed_cents :: "rat \<Rightarrow> int" where
  "toFixed_cents x = \<lfloor>x * 100 + 1 / 2\<rfloor>"

text \<open>
  \<open>Number(x.toFixed(2))\<close>: the double nearest to that decimal. A negative \<open>x\<close> is written
  as the minus sign and the digits of \<open>-x\<close>; from \<open>10^21\<close> on, \<open>toFixed\<close> writes the number
  itself.
\<close>

definition toFixed2 :: "rat \<Rightarrow> rat" where
  "toFixed2 x = (if 10 ^ 21 \<le> \<bar>x\<bar> then x
                 else if x < 0 then - to_double (of_int (toFixed_cents (- x)) / 100)
                 else to_double (of_int (toFixed_cents x) / 100))"

text \<open>A record returned by the extraction service; every field may be missing.\<close>

record RawInvoice =
  raw_invoice_number :: "string option"
  raw_receipt_number :: "string option"
  raw_customer :: "string option"
  raw_amount_before_vat :: "rat option"
  raw_currency_code :: "string option"
  raw_invoice_date :: "string option"
  raw_project_description :: "string option"

record ConversionInfo =
  originalCurrency :: string
  originalAmount :: rat
  rate :: rat

text \<open>
  A draft item of the review form. The numeric inputs are held as their \<open>Number\<close>
  value; the cost is \<open>None\<close> while its input is blank (\<open>''\<close>).
\<close>

record DraftItem =
  d_invoice_number :: string
  d_receipt_number :: "string option"
  d_customer :: string
  d_amount_before_vat :: rat
  d_project :: string
  d_invoice_month :: string
  d_client_paid_date :: "string option"
  d_commission_rate :: rat
  d_cost_before_vat :: "rat option"
  d_tax :: rat
  conversionInfo :: "ConversionInfo option"

text \<open>
  The amount and the conversion information of a draft item: the body of the mapping
  from \<open>let amount = ...\<close> to the end of the \<open>if (currencyCode !== 'THB' && amount > 0)\<close>.
\<close>

definition convert_amount :: "RawInvoice \<Rightarrow> rat \<times> ConversionInfo option" where
  "convert_amount item =
     (let amount = num_or (raw_amount_before_vat item) 0;
          currencyCode = toUpperCase (str_or (raw_currency_code item) ''THB'')
      in if currencyCode \<noteq> ''THB'' \<and> amount > 0
         then (case EXCHANGE_RATES currencyCode of
                 None \<Rightarrow> (amount, None)
               | Some r \<Rightarrow>
                   if r = 0 then (amount, None)
                   else (toFixed2 (js_mul amount r),
                         Some \<lparr>originalCurrency = currencyCode, originalAmount = amount, rate = r\<rparr>))
         else (amount, None))"

text \<open>
  One step of \<open>dataArray.map\<close>. \<open>now_iso\<close> is \<open>new Date().toISOString()\<close>;
  \<open>parse_date s\<close> is \<open>new Date(s).toISOString()\<close>, or \<open>None\<close> when the date is invalid.
\<close>

definition map_item ::
  "Profile \<Rightarrow> string \<Rightarrow> (string \<Rightarrow> string option) \<Rightarrow> RawInvoice \<Rightarrow> DraftItem" where
  "map_item user now_iso parse_date item =
     (let rawDate = (if truthy_str (raw_invoice_date item)
                     then str_or (raw_invoice_date item) [] else take 10 now_iso);
          dateStr = (if truthy_str (raw_invoice_date item)
                     then (case parse_date (str_or (raw_invoice_date item) []) of
                             None \<Rightarrow> take 8 now_iso @ ''01''
                           | Some isoStr \<Rightarrow> take 8 isoStr @ ''01'')
                     else take 8 now_iso @ ''01'');
          conv = convert_amount item
      in \<lparr>d_invoice_number = str_or (raw_invoice_number item) [],
          d_receipt_number = (if truthy_str (raw_receipt_number item)
                              then raw_receipt_number item else None),
          d_customer = str_or (raw_customer item) [],
          d_amount_before_vat = fst conv,
          d_project = str_or (raw_project_description item) [],
          d_invoice_month = dateStr,
          d_client_paid_date = (if truthy_str (raw_receipt_number item) then Some rawDate else None),
          d_commission_rate = default_commission_rate user,
          d_cost_before_vat = None,
          d_tax = 0,
          conversionInfo = snd conv\<rparr>)"

subsection \<open>Saving a draft item\<close>

datatype modal_type = cost_empty | duplicate

record ModalConfig =
  isOpen :: bool
  m_type :: modal_type
  m_index :: nat
  message :: string
  primaryAction :: string
  secondaryAction :: string

text \<open>
  The state one save touches: the component's \<open>items\<close>, \<open>savedIds\<close>, \<open>modalConfig\<close> and
  \<open>showToast\<close>, and the application's collection (the prop \<open>existingCommissions\<close>,
  changed through \<open>onSave\<close>).
\<close>

record review_state =
  items :: "DraftItem list"
  savedIds :: "nat set"
  modalConfig :: "ModalConfig option"
  showToast :: bool
  existingCommissions :: "CommissionEntry list"

text \<open>
  The entry built by \<open>finalizeSave\<close>. \<open>fileName\<close> is \<open>file?.name\<close>, \<open>uuid\<close> the value
  of \<open>crypto.randomUUID()\<close>.
\<close>

definition new_entry_of :: "Profile \<Rightarrow> string option \<Rightarrow> string \<Rightarrow> DraftItem \<Rightarrow> CommissionEntry" where
  "new_entry_of user fileName uuid item =
     (let cost = (case d_cost_before_vat item of None \<Rightarrow> 0 | Some c \<Rightarrow> c);
          amount = d_amount_before_vat item;
          r = d_commission_rate item;
          netTotal = js_sub amount cost;
          netToPay = js_mul netTotal (js_div r 100)
      in \<lparr>id' = uuid,
          user_id = profile_id user,
          invoice_number = d_invoice_number item,
          receipt_number = (if truthy_str (d_receipt_number item) then d_receipt_number item else None),
          customer = d_customer item,
          project = d_project item,
          amount_before_vat = amount,
          cost_before_vat = cost,
          commission_rate = r,
          tax = num_or (Some (d_tax item)) 0,
          net_total = netTotal,
          net_to_pay = netToPay,
          invoice_month = d_invoice_month item,
          client_paid_date = d_client_paid_date item,
          commission_status = (if truthy_str (d_client_paid_date item) then ELIGIBLE else UNPAID),
          company_paid_date = None,
          note' = None,
          file_name = fileName\<rparr>)"

text \<open>
  The handlers read \<open>items[index]\<close>; with an index out of range they throw at the first
  field access and leave the state as it is.
\<close>

definition finalizeSave :: "Profile \<Rightarrow> string option \<Rightarrow> string \<Rightarrow> nat \<Rightarrow> review_state \<Rightarrow> review_state" where
  "finalizeSave user fileName uuid index st =
     (if index < length (items st)
      then
        let item = items st ! index
        in st\<lparr>existingCommissions :=
                 handleSaveCommission (new_entry_of user fileName uuid item) (existingCommissions st),
               savedIds := insert index (savedIds st),
               modalConfig := None,
               items := (if d_cost_before_vat item = None
                         then (items st)[index := item\<lparr>d_cost_before_vat := Some 0\<rparr>]
                         else items st),
               showToast := True\<rparr>
      else st)"

definition proceedWithDuplicateCheck ::
  "Profile \<Rightarrow> string option \<Rightarrow> string \<Rightarrow> nat \<Rightarrow> review_state \<Rightarrow> review_state" where
  "proceedWithDuplicateCheck user fileName uuid index st =
     (if index < length (items st)
      then
        let item = items st ! index;
            isDuplicate = list_ex
              (\<lambda>c. toLowerCase (invoice_number c) = toLowerCase (d_invoice_number item)
                    \<and> user_id c = profile_id user)
              (existingCommissions st)
        in if isDuplicate
           then st\<lparr>modalConfig := Some
                  \<lparr>isOpen = True, m_type = duplicate, m_index = index,
                   message = ''Invoice '' @ d_invoice_number item @ '' already exists. Add anyway?'',
                   primaryAction = ''Add Duplicate'', secondaryAction = ''Cancel''\<rparr>\<rparr>
           else finalizeSave user fileName uuid index st
      else st)"

definition handleSaveClick ::
  "Profile \<Rightarrow> string option \<Rightarrow> string \<Rightarrow> nat \<Rightarrow> review_state \<Rightarrow> review_state" where
  "handleSaveClick user fileName uuid index st =
     (if index < length (items st)
      then
        if d_cost_before_vat (items st ! index) = None
        then st\<lparr>modalConfig := Some
               \<lparr>isOpen = True, m_type = cost_empty, m_index = index,
                message = ''Cost before VAT is empty. Set to 0?'',
                primaryAction = ''Yes, set to 0'', secondaryAction = ''Cancel''\<rparr>\<rparr>
        else proceedWithDuplicateCheck user fileName uuid index st
      else st)"

definition handleModalConfirm ::
  "Profile \<Rightarrow> string option \<Rightarrow> string \<Rightarrow> review_state \<Rightarrow> review_state" where
  "handleModalConfirm user fileName uuid st =
     (case modalConfig st of
        None \<Rightarrow> st
      | Some m \<Rightarrow>
          if m_type m = cost_empty
          then proceedWithDuplicateCheck user fileName uuid (m_index m) (st\<lparr>modalConfig := None\<rparr>)
          else finalizeSave user fileName uuid (m_index m) st)"


section \<open>Upload queue (InvoiceUpload)\<close>

record File =
  f_name :: string
  f_type :: string

datatype upload_status = uploading | parsing | ready | error

record UploadItem =
  u_id :: string
  u_file :: File
  u_status :: upload_status
  u_progress :: nat
  extractedData :: "RawInvoice option"
  errorMessage :: "string option"

text \<open>
  \<open>xs.slice(0, end)\<close>: a negative \<open>end\<close> counts from the end of the array.
\<close>

definition slice0 :: "int \<Rightarrow> 'a list \<Rightarrow> 'a list" where
  "slice0 end xs =
     (let len = int (length xs);
          k = (if end < 0 then max (len + end) 0 else min end len)
      in take (nat k) xs)"

definition is_pdf :: "File \<Rightarrow> bool" where
  "is_pdf file = (f_type file = ''application/pdf'')"

record process_result =
  queue_after :: "UploadItem list"
  newItems :: "UploadItem list"
  upload_alerted :: bool

text \<open>
  \<open>processFiles\<close>. \<open>uuid n\<close> is the value of the \<open>n\<close>-th call of \<open>crypto.randomUUID()\<close>.
  Every new item is then handed to \<open>startUploadAndParse\<close>.
\<close>

definition processFiles :: "(nat \<Rightarrow> string) \<Rightarrow> File list \<Rightarrow> UploadItem list \<Rightarrow> process_result" where
  "processFiles uuid files queue =
     (let new = map (\<lambda>(n, file).
                   \<lparr>u_id = uuid n, u_file = file, u_status = uploading, u_progress = 0,
                    extractedData = None, errorMessage = None\<rparr>)
                 (enumerate 0 (filter is_pdf (slice0 (5 - int (length queue)) files)))
      in if length new = 0
         then \<lparr>queue_after = queue, newItems = [],
               upload_alerted = list_ex (\<lambda>f. f_type f \<noteq> ''application/pdf'') files\<rparr>
         else \<lparr>queue_after = queue @ new, newItems = new, upload_alerted = False\<rparr>)"

definition removeQueueItem :: "string \<Rightarrow> UploadItem list \<Rightarrow> UploadItem list" where
  "removeQueueItem i prev = filter (\<lambda>x. u_id x \<noteq> i) prev"

text \<open>
  The other updates of the queue (\<open>retryItem\<close>, the progress and status updates of
  \<open>startUploadAndParse\<close>) all have the form \<open>prev.map(q => q.id === id ? {...} : q)\<close>.
\<close>

definition updateQueueItem :: "string \<Rightarrow> (UploadItem \<Rightarrow> UploadItem) \<Rightarrow> UploadItem list \<Rightarrow> UploadItem list" where
  "updateQueueItem i upd prev = map (\<lambda>q. if u_id q = i then upd q else q) prev"

text \<open>The queues the component can hold: it starts empty and changes by these three.\<close>

inductive queue_reachable :: "UploadItem list \<Rightarrow> bool" where
  queue_init: "queue_reachable []"
| queue_process: "queue_reachable q \<Longrightarrow> queue_reachable (queue_after (processFiles uuid files q))"
| queue_remove: "queue_reachable q \<Longrightarrow> queue_reachable (removeQueueItem i q)"
| queue_update: "queue_reachable q \<Longrightarrow> queue_reachable (updateQueueItem i upd q)"

section \<open>Example data\<close>






definition EXAMPLE_USER :: Profile where
  "EXAMPLE_USER =
     \<lparr>profile_id = ''user-1'', email = ''freelancer@base44.com'', full_name = ''Alex Freelancer'',
      avatar_url = None, role = USER, team_id = Some ''team-1'', default_commission_rate = 5\<rparr>"

text \<open>Two entries of 0.1 and 0.2, for the totals of an export.\<close>

definition EXAMPLE_SMALL :: "CommissionEntry list" where
  "EXAMPLE_SMALL =
     [MOCK_ENTRY_2\<lparr>amount_before_vat := to_double (1 / 10)\<rparr>,
      MOCK_ENTRY_3\<lparr>amount_before_vat := to_double (2 / 10)\<rparr>]"

text \<open>A drop of six files, the first of them not a PDF, and a source of item ids.\<close>

definition EXAMPLE_FILES :: "File list" where
  "EXAMPLE_FILES =
     [\<lparr>f_name = ''notes.txt'', f_type = ''text/plain''\<rparr>,
      \<lparr>f_name = ''a.pdf'', f_type = ''application/pdf''\<rparr>,
      \<lparr>f_name = ''b.pdf'', f_type = ''application/pdf''\<rparr>,
      \<lparr>f_name = ''c.pdf'', f_type = ''application/pdf''\<rparr>,
      \<lparr>f_name = ''d.pdf'', f_type = ''application/pdf''\<rparr>,
      \<lparr>f_name = ''e.pdf'', f_type = ''application/pdf''\<rparr>]"

definition EXAMPLE_UUID :: "nat \<Rightarrow> string" where
  "EXAMPLE_UUID n = replicate (Suc n) CHR ''u''"

section \<open>Columns and sums of a sheet\<close>

text \<open>The cells of one column, row by row.\<close>

definition column :: "string \<Rightarrow> row list \<Rightarrow> cell option list" where
  "column c rows = map (\<lambda>r. map_of r c) rows"

text \<open>
  The sum of a list of numbers as \<open>reduce((sum, x) => sum + x, 0)\<close> computes it: from the
  left, each addition in double arithmetic.
\<close>

definition js_sum :: "rat list \<Rightarrow> rat" where
  "js_sum xs = foldl js_add 0 xs"

section \<open>The derived fields\<close>

text \<open>
  An entry is consistent when its two derived fields are the ones the handlers compute
  from its amount, cost and rate: the difference, and the product of the difference with
  the hundredth of the rate, each operation in double arithmetic.
\<close>

definition derived_ok :: "CommissionEntry \<Rightarrow> bool" where
  "derived_ok e \<longleftrightarrow>
     net_total e = js_sub (amount_before_vat e) (cost_before_vat e) \<and>
     net_to_pay e = js_mul (net_total e) (js_div (commission_rate e) 100)"

lemma derived_ok_recalculate: "derived_ok (recalculate u)"
  by (simp add: derived_ok_def recalculate_def Let_def)

lemma recalculate_ignores_derived:
  "recalculate (u\<lparr>net_total := x, net_to_pay := y\<rparr>) = recalculate u"
  by (simp add: recalculate_def Let_def)

lemma derived_ok_update:
  "\<forall>c\<in>set cs. derived_ok c \<Longrightarrow> \<forall>c\<in>set (handleUpdateCommission u cs). derived_ok c"
  by (auto simp: handleUpdateCommission_def Let_def derived_ok_recalculate)

lemma derived_ok_onAdd:
  "onAdd (handleAddSubmit user active newEntry ans uuid) = Some e \<Longrightarrow> derived_ok e"
  by (auto simp: handleAddSubmit_def Let_def derived_ok_def split: option.splits if_splits)

lemma derived_ok_new_entry: "derived_ok (new_entry_of user fileName uuid item)"
  by (simp add: new_entry_of_def Let_def derived_ok_def)

lemma derived_ok_commissions_view_add:
  "\<forall>c\<in>set cs. derived_ok c \<Longrightarrow>
   \<forall>c\<in>set (commissions_view_add user profiles vm newEntry ans uuid cs). derived_ok c"
  by (auto simp: commissions_view_add_def manual_add_def handleAddCommission_def
      dest: derived_ok_onAdd split: option.splits)

lemma derived_ok_admin_panel_add:
  "\<forall>c\<in>set cs. derived_ok c \<Longrightarrow>
   \<forall>c\<in>set (admin_panel_add user newEntry ans uuid cs). derived_ok c"
  by (simp add: admin_panel_add_def manual_add_def split: option.splits)

lemma derived_ok_inline_edit:
  "\<forall>c\<in>set cs. derived_ok c \<Longrightarrow> \<forall>c\<in>set (inline_edit ro active ans i e cs). derived_ok c"
  unfolding inline_edit_def using derived_ok_update by (simp split: option.splits)

lemma derived_ok_finalizeSave:
  "\<forall>c\<in>set (existingCommissions st). derived_ok c \<Longrightarrow>
   \<forall>c\<in>set (existingCommissions (finalizeSave user fileName uuid index st)). derived_ok c"
  by (auto simp: finalizeSave_def Let_def handleSaveCommission_def derived_ok_new_entry)

lemma derived_ok_proceed:
  "\<forall>c\<in>set (existingCommissions st). derived_ok c \<Longrightarrow>
   \<forall>c\<in>set (existingCommissions (proceedWithDuplicateCheck user fileName uuid index st)). derived_ok c"
  using derived_ok_finalizeSave by (simp add: proceedWithDuplicateCheck_def Let_def)

lemma derived_ok_handleSaveClick:
  "\<forall>c\<in>set (existingCommissions st). derived_ok c \<Longrightarrow>
   \<forall>c\<in>set (existingCommissions (handleSaveClick user fileName uuid index st)). derived_ok c"
  using derived_ok_proceed by (simp add: handleSaveClick_def)

lemma derived_ok_handleModalConfirm:
  "\<forall>c\<in>set (existingCommissions st). derived_ok c \<Longrightarrow>
   \<forall>c\<in>set (existingCommissions (handleModalConfirm user fileName uuid st)). derived_ok c"
  using derived_ok_proceed[of "st\<lparr>modalConfig := None\<rparr>"] derived_ok_finalizeSave[of st]
  by (simp add: handleModalConfirm_def split: option.splits)

subsection \<open>Values of the double arithmetic\<close>

declare bitlen.simps [simp del]

lemma bitlen_0: "bitlen 0 = 0"
  by (subst bitlen.simps) simp

lemma bitlen_Suc_0: "bitlen (Suc 0) = Suc 0"
  by (subst bitlen.simps) (simp add: bitlen_0)

lemma bitlen_1: "bitlen 1 = Suc 0"
  using bitlen_Suc_0 by simp

lemma bitlen_Bit0: "bitlen (numeral (Num.Bit0 k)) = Suc (bitlen (numeral k))"
  by (subst bitlen.simps) simp

lemma bitlen_Bit1: "bitlen (numeral (Num.Bit1 k)) = Suc (bitlen (numeral k))"
  by (subst bitlen.simps) simp

lemma floor_rat_numeral:
  "\<lfloor>numeral a / numeral b :: rat\<rfloor> = numeral a div numeral b"
  "\<lfloor>1 / numeral b :: rat\<rfloor> = 1 div numeral b"
  using floor_divide_of_int_eq[of "numeral a" "numeral b", where ?'a = rat]
    floor_divide_of_int_eq[of 1 "numeral b", where ?'a = rat]
  by simp_all

lemmas double_eval = to_double_def fl_scale_def ilog2_def ilog2_estimate_def ilog2_adjust_def
  round_even_def round_pick_def pow2_def
  bitlen_0 bitlen_Suc_0 bitlen_1 bitlen_Bit0 bitlen_Bit1 floor_rat_numeral
  js_add_def js_sub_def js_mul_def js_div_def

lemma seed_values:
  "js_sub 5000 500 = 4500" "js_mul 4500 (js_div 5 100) = 225"
  "js_sub 12000 0 = 12000" "js_mul 12000 (js_div 5 100) = 600"
  "js_sub 8000 0 = 8000" "js_mul 8000 (js_div 5 100) = 400"
  by (simp_all add: double_eval)

lemma edited_values:
  "js_sub 6000 500 = 5500" "js_mul 5500 (js_div 5 100) = 275"
  "js_sub (- 10) 0 = - 10"
  by (simp_all add: double_eval)

lemma seven_percent:
  "js_mul 12000 (js_div 7 100) = 840 + 1 / 2 ^ 43"
  "js_div (js_mul 12000 7) 100 = 840"
  by (simp_all add: double_eval)

lemma mock_entries_ok: "\<forall>c\<in>set MOCK_ENTRIES. derived_ok c"
  by (simp add: MOCK_ENTRIES_def MOCK_ENTRY_1_def MOCK_ENTRY_2_def MOCK_ENTRY_3_def derived_ok_def
      seed_values)

lemma mock_edit_amount:
  "map net_to_pay
     (inline_edit False MOCK_ENTRIES None ''1'' (E_amount_before_vat 6000) MOCK_ENTRIES)
   = [275, 600, 400]"
  by (simp add: inline_edit_def handleInlineUpdate_def MOCK_ENTRIES_def MOCK_ENTRY_1_def
      MOCK_ENTRY_2_def MOCK_ENTRY_3_def handleUpdateCommission_def recalculate_def Let_def
      truthy_str_def edited_values)

subsection \<open>The invariant\<close>

text \<open>
  C1 (as the code has it). Consistency of the derived fields is kept by every create and
  update: when every entry of the collection has
  \<open>net_total = amount_before_vat - cost_before_vat\<close> and
  \<open>net_to_pay = net_total * (commission_rate / 100)\<close>, each operation in double
  arithmetic (as the seed entries have), so has every entry of the collection after the
  manual add form is submitted in the commissions view or in the admin panel, after a
  save click or a modal confirmation of the invoice review, and after an inline edit,
  whatever their arguments. The values an update carries in the two derived fields have
  no effect on the stored entry: they are recomputed, never set independently.
\<close>

theorem C1_derived_fields_invariant:
  assumes "\<forall>c\<in>set commissions. derived_ok c"
  shows "(\<forall>c\<in>set (commissions_view_add user profiles vm newEntry confirmAnswer uuid commissions).
            derived_ok c)
    \<and> (\<forall>c\<in>set (admin_panel_add user newEntry confirmAnswer uuid commissions). derived_ok c)
    \<and> (\<forall>c\<in>set (existingCommissions (handleSaveClick user fileName uuid index
                 (st\<lparr>existingCommissions := commissions\<rparr>))). derived_ok c)
    \<and> (\<forall>c\<in>set (existingCommissions (handleModalConfirm user fileName uuid
                 (st\<lparr>existingCommissions := commissions\<rparr>))). derived_ok c)
    \<and> (\<forall>c\<in>set (inline_edit isViewReadOnly activeEntries promptAnswer i e commissions). derived_ok c)
    \<and> handleUpdateCommission (u\<lparr>net_total := x, net_to_pay := y\<rparr>) commissions
        = handleUpdateCommission u commissions"
proof -
  have a: "\<forall>c\<in>set (existingCommissions (st\<lparr>existingCommissions := commissions\<rparr>)). derived_ok c"
    using assms by simp
  show ?thesis
    using derived_ok_commissions_view_add[OF assms] derived_ok_admin_panel_add[OF assms]
      derived_ok_handleSaveClick[OF a] derived_ok_handleModalConfirm[OF a]
      derived_ok_inline_edit[OF assms]
    by (simp add: handleUpdateCommission_def recalculate_ignores_derived)
qed

theorem C1_derived_fields_invariant_witness:
  "list_all derived_ok MOCK_ENTRIES
   \<and> list_all derived_ok
        (inline_edit False MOCK_ENTRIES None ''1'' (E_amount_before_vat 6000) MOCK_ENTRIES)
   \<and> map net_to_pay (inline_edit False MOCK_ENTRIES None ''1'' (E_amount_before_vat 6000) MOCK_ENTRIES)
       = [275, 600, 400]"
proof -
  have r: "\<forall>c\<in>set (inline_edit False MOCK_ENTRIES None ''1'' (E_amount_before_vat 6000) MOCK_ENTRIES).
             derived_ok c"
    using C1_derived_fields_invariant[OF mock_entries_ok,
        where isViewReadOnly = False and activeEntries = MOCK_ENTRIES and promptAnswer = None
          and i = "''1''" and e = "E_amount_before_vat 6000"]
    by blast
  show ?thesis
    using mock_entries_ok r mock_edit_amount unfolding list_all_iff by blast
qed

text \<open>
  The claim as the specification words it, \<open>net_to_pay = net_total * commission_rate / 100\<close>,
  fails: with the rate of the second seed entry edited to 7, the stored \<open>net_to_pay\<close> is
  the rounded product of 12000 and the double nearest to 0.07, which is above 840, while
  12000 times 7 divided by 100 is 840, exactly and in double arithmetic.
\<close>

theorem C1_rounded_product_counterexample:
  "map net_total
     (inline_edit False MOCK_ENTRIES None ''2'' (E_commission_rate 7) MOCK_ENTRIES)
     = [4500, 12000, 8000]
   \<and> map commission_rate
     (inline_edit False MOCK_ENTRIES None ''2'' (E_commission_rate 7) MOCK_ENTRIES)
     = [5, 7, 5]
   \<and> map net_to_pay
     (inline_edit False MOCK_ENTRIES None ''2'' (E_commission_rate 7) MOCK_ENTRIES)
     = [225, 840 + 1 / 2 ^ 43, 400]
   \<and> (12000 :: rat) * 7 / 100 = 840
   \<and> js_div (js_mul 12000 7) 100 = 840
   \<and> (840 :: rat) + 1 / 2 ^ 43 \<noteq> 840"
  by (simp add: inline_edit_def handleInlineUpdate_def MOCK_ENTRIES_def MOCK_ENTRY_1_def
      MOCK_ENTRY_2_def MOCK_ENTRY_3_def handleUpdateCommission_def recalculate_def Let_def
      truthy_str_def seed_values seven_percent)

section \<open>Inline edits of the table\<close>

lemma find_id: "find (\<lambda>x. id' x = i) activeEntries = Some entry \<Longrightarrow> id' entry = i"
  by (auto simp: find_Some_iff)

lemma find_mock_2: "find (\<lambda>x. id' x = ''2'') MOCK_ENTRIES = Some MOCK_ENTRY_2"
  by (simp add: MOCK_ENTRIES_def MOCK_ENTRY_1_def MOCK_ENTRY_2_def MOCK_ENTRY_3_def)

lemma find_mock_3: "find (\<lambda>x. id' x = ''3'') MOCK_ENTRIES = Some MOCK_ENTRY_3"
  by (simp add: MOCK_ENTRIES_def MOCK_ENTRY_1_def MOCK_ENTRY_2_def MOCK_ENTRY_3_def)

lemma mock_ids: "id' MOCK_ENTRY_1 = ''1''" "id' MOCK_ENTRY_2 = ''2''" "id' MOCK_ENTRY_3 = ''3''"
  by (simp_all add: MOCK_ENTRY_1_def MOCK_ENTRY_2_def MOCK_ENTRY_3_def)

lemma mock_status:
  "commission_status MOCK_ENTRY_1 = PAID" "commission_status MOCK_ENTRY_2 = ELIGIBLE"
  "commission_status MOCK_ENTRY_3 = UNPAID"
  by (simp_all add: MOCK_ENTRY_1_def MOCK_ENTRY_2_def MOCK_ENTRY_3_def)

lemma mock_company_paid_date:
  "company_paid_date MOCK_ENTRY_1 = None" "company_paid_date MOCK_ENTRY_2 = None"
  "company_paid_date MOCK_ENTRY_3 = None"
  by (simp_all add: MOCK_ENTRY_1_def MOCK_ENTRY_2_def MOCK_ENTRY_3_def)

lemma recalculate_fields:
  "id' (recalculate u) = id' u"
  "commission_status (recalculate u) = commission_status u"
  "company_paid_date (recalculate u) = company_paid_date u"
  "client_paid_date (recalculate u) = client_paid_date u"
  "invoice_number (recalculate u) = invoice_number u"
  "amount_before_vat (recalculate u) = amount_before_vat u"
  "cost_before_vat (recalculate u) = cost_before_vat u"
  "commission_rate (recalculate u) = commission_rate u"
  by (simp_all add: recalculate_def Let_def)

text \<open>
  C2 (as the code has it). On a view that is not read-only, editing the status of an
  entry to \<open>paid\<close> while its \<open>company_paid_date\<close> is unset (or empty) shows the prompt.
  With a date supplied, the entry is updated with status \<open>paid\<close> and that date. With no
  date supplied (the prompt cancelled, or left empty), the status change is applied all
  the same: the entry gets status \<open>paid\<close>, its \<open>company_paid_date\<close> and other stored
  fields stay, and the derived fields are recomputed as on every update.
\<close>

theorem C2_paid_prompt:
  assumes "\<not> isViewReadOnly"
    and "find (\<lambda>x. id' x = i) activeEntries = Some entry"
    and "\<not> truthy_str (company_paid_date entry)"
  shows "prompted (handleInlineUpdate isViewReadOnly activeEntries invalid promptAnswer i
                     (E_commission_status PAID))
    \<and> onUpdate (handleInlineUpdate isViewReadOnly activeEntries invalid promptAnswer i
                   (E_commission_status PAID))
        = Some (if truthy_str promptAnswer
                then entry\<lparr>commission_status := PAID, company_paid_date := promptAnswer\<rparr>
                else entry\<lparr>commission_status := PAID\<rparr>)
    \<and> inline_edit isViewReadOnly activeEntries promptAnswer i (E_commission_status PAID) commissions
        = map (\<lambda>c. if id' c = i
                    then recalculate (if truthy_str promptAnswer
                           then entry\<lparr>commission_status := PAID, company_paid_date := promptAnswer\<rparr>
                           else entry\<lparr>commission_status := PAID\<rparr>)
                    else c) commissions"
  using assms find_id[OF assms(2)]
  by (simp add: handleInlineUpdate_def inline_edit_def handleUpdateCommission_def Let_def
      recalculate_def)

theorem C2_paid_prompt_witness:
  "map commission_status
     (inline_edit False MOCK_ENTRIES None ''3'' (E_commission_status PAID) MOCK_ENTRIES)
     = [PAID, ELIGIBLE, PAID]
   \<and> map company_paid_date
     (inline_edit False MOCK_ENTRIES None ''3'' (E_commission_status PAID) MOCK_ENTRIES)
     = [None, None, None]
   \<and> map company_paid_date
     (inline_edit False MOCK_ENTRIES (Some ''2024-01-05'') ''3'' (E_commission_status PAID) MOCK_ENTRIES)
     = [None, None, Some ''2024-01-05'']"
proof -
  have h: "\<not> truthy_str (company_paid_date MOCK_ENTRY_3)"
    by (simp add: mock_company_paid_date truthy_str_def)
  have n: "\<not> False" by simp
  note a = C2_paid_prompt[OF n find_mock_3 h, where promptAnswer = None and commissions = MOCK_ENTRIES]
  note b = C2_paid_prompt[OF n find_mock_3 h, where promptAnswer = "Some ''2024-01-05''"
      and commissions = MOCK_ENTRIES]
  have a': "inline_edit False MOCK_ENTRIES None ''3'' (E_commission_status PAID) MOCK_ENTRIES
      = map (\<lambda>c. if id' c = ''3'' then recalculate (MOCK_ENTRY_3\<lparr>commission_status := PAID\<rparr>) else c)
          MOCK_ENTRIES"
    using a by (simp add: truthy_str_def)
  have b': "inline_edit False MOCK_ENTRIES (Some ''2024-01-05'') ''3'' (E_commission_status PAID) MOCK_ENTRIES
      = map (\<lambda>c. if id' c = ''3''
                  then recalculate (MOCK_ENTRY_3\<lparr>commission_status := PAID,
                                     company_paid_date := Some ''2024-01-05''\<rparr>) else c)
          MOCK_ENTRIES"
    using b by (simp add: truthy_str_def)
  show ?thesis
    unfolding a' b'
    by (simp add: MOCK_ENTRIES_def mock_ids mock_status mock_company_paid_date recalculate_fields)
qed

text \<open>
  The claim as the specification words it fails: declining the prompt on the unpaid
  seed entry leaves it with status \<open>paid\<close>, not unchanged.
\<close>

theorem C2_declined_prompt_counterexample:
  "commission_status MOCK_ENTRY_3 = UNPAID
   \<and> company_paid_date MOCK_ENTRY_3 = None
   \<and> prompted (handleInlineUpdate False [MOCK_ENTRY_3] Map.empty None ''3'' (E_commission_status PAID))
   \<and> inline_edit False [MOCK_ENTRY_3] None ''3'' (E_commission_status PAID) [MOCK_ENTRY_3]
       \<noteq> [MOCK_ENTRY_3]
   \<and> map commission_status
       (inline_edit False [MOCK_ENTRY_3] None ''3'' (E_commission_status PAID) [MOCK_ENTRY_3])
       = [PAID]"
  by (simp add: handleInlineUpdate_def inline_edit_def handleUpdateCommission_def Let_def
      recalculate_def MOCK_ENTRY_3_def truthy_str_def)

text \<open>
  C3. On a view that is not read-only, editing \<open>client_paid_date\<close> of an entry to a
  non-empty value stores the date and takes status \<open>unpaid\<close> to \<open>eligible\<close>; an entry
  that is \<open>eligible\<close> or \<open>paid\<close> keeps its status.
\<close>

theorem C3_client_paid_date:
  assumes "\<not> isViewReadOnly"
    and "find (\<lambda>x. id' x = i) activeEntries = Some entry"
    and "v \<noteq> []"
  shows "onUpdate (handleInlineUpdate isViewReadOnly activeEntries invalid promptAnswer i
                   (E_client_paid_date v))
        = Some (entry\<lparr>client_paid_date := Some v,
                   commission_status := (case commission_status entry of
                       UNPAID \<Rightarrow> ELIGIBLE | ELIGIBLE \<Rightarrow> ELIGIBLE | PAID \<Rightarrow> PAID)\<rparr>)
    \<and> inline_edit isViewReadOnly activeEntries promptAnswer i (E_client_paid_date v) commissions
        = map (\<lambda>c. if id' c = i
                    then recalculate (entry\<lparr>client_paid_date := Some v,
                           commission_status := (case commission_status entry of
                              UNPAID \<Rightarrow> ELIGIBLE | ELIGIBLE \<Rightarrow> ELIGIBLE | PAID \<Rightarrow> PAID)\<rparr>)
                    else c) commissions"
  using assms find_id[OF assms(2)]
  by (cases "commission_status entry")
     (simp_all add: handleInlineUpdate_def inline_edit_def handleUpdateCommission_def Let_def
      recalculate_def)

theorem C3_client_paid_date_witness:
  "map commission_status
     (inline_edit False MOCK_ENTRIES None ''3'' (E_client_paid_date ''2023-12-01'') MOCK_ENTRIES)
     = [PAID, ELIGIBLE, ELIGIBLE]
   \<and> map commission_status
     (inline_edit False MOCK_ENTRIES None ''2'' (E_client_paid_date ''2023-12-01'') MOCK_ENTRIES)
     = [PAID, ELIGIBLE, UNPAID]"
proof -
  have n: "\<not> False" by simp
  have v: "''2023-12-01'' \<noteq> []" by simp
  note a = C3_client_paid_date[OF n find_mock_3 v, where promptAnswer = None
      and commissions = MOCK_ENTRIES, THEN conjunct2]
  note b = C3_client_paid_date[OF n find_mock_2 v, where promptAnswer = None
      and commissions = MOCK_ENTRIES, THEN conjunct2]
  show ?thesis
    unfolding a b
    by (simp add: MOCK_ENTRIES_def mock_ids mock_status recalculate_fields)
qed

lemma invalid_edit_plain:
  "\<not> validateField e \<Longrightarrow>
   \<not> is_paid_edit e \<and> \<not> is_client_date_edit e \<and> id' (apply_edit entry e) = id' entry"
  by (cases e) auto

text \<open>
  C9. On a view that is not read-only, an inline edit that fails validation (a negative
  amount or cost, a rate outside 0 to 100, an empty or blank invoice number) is not
  blocked: the failure is recorded in \<open>invalidFields\<close> (the red border), no prompt is
  shown, the entry with the new value is handed to \<open>onUpdate\<close>, and the collection gets
  that entry with its derived fields recomputed.
\<close>

theorem C9_invalid_edit_applied:
  assumes "\<not> isViewReadOnly"
    and "find (\<lambda>x. id' x = i) activeEntries = Some entry"
    and "\<not> validateField e"
  shows "invalidFields (handleInlineUpdate isViewReadOnly activeEntries invalid promptAnswer i e)
           (i, field_of e) = Some True
    \<and> \<not> prompted (handleInlineUpdate isViewReadOnly activeEntries invalid promptAnswer i e)
    \<and> onUpdate (handleInlineUpdate isViewReadOnly activeEntries invalid promptAnswer i e)
        = Some (apply_edit entry e)
    \<and> inline_edit isViewReadOnly activeEntries promptAnswer i e commissions
        = map (\<lambda>c. if id' c = i then recalculate (apply_edit entry e) else c) commissions
    \<and> derived_ok (recalculate (apply_edit entry e))
    \<and> (\<forall>v. e = E_amount_before_vat v \<longrightarrow> amount_before_vat (recalculate (apply_edit entry e)) = v)
    \<and> (\<forall>v. e = E_cost_before_vat v \<longrightarrow> cost_before_vat (recalculate (apply_edit entry e)) = v)
    \<and> (\<forall>v. e = E_commission_rate v \<longrightarrow> commission_rate (recalculate (apply_edit entry e)) = v)
    \<and> (\<forall>v. e = E_invoice_number v \<longrightarrow> invoice_number (recalculate (apply_edit entry e)) = v)"
proof -
  note p = invalid_edit_plain[OF assms(3), of entry]
  have u: "onUpdate (handleInlineUpdate isViewReadOnly activeEntries invalid promptAnswer i e)
        = Some (apply_edit entry e)"
    using assms(1,2) p by (simp add: handleInlineUpdate_def Let_def)
  have u0: "onUpdate (handleInlineUpdate isViewReadOnly activeEntries Map.empty promptAnswer i e)
        = Some (apply_edit entry e)"
    using assms(1,2) p by (simp add: handleInlineUpdate_def Let_def)
  have f: "invalidFields (handleInlineUpdate isViewReadOnly activeEntries invalid promptAnswer i e)
           (i, field_of e) = Some True"
    using assms p by (simp add: handleInlineUpdate_def Let_def)
  have q: "\<not> prompted (handleInlineUpdate isViewReadOnly activeEntries invalid promptAnswer i e)"
    using assms(1,2) p by (simp add: handleInlineUpdate_def Let_def)
  have idr: "id' (recalculate (apply_edit entry e)) = i"
    using p find_id[OF assms(2)] by (simp add: recalculate_def Let_def)
  have c: "inline_edit isViewReadOnly activeEntries promptAnswer i e commissions
        = map (\<lambda>c. if id' c = i then recalculate (apply_edit entry e) else c) commissions"
    using u0 idr by (simp add: inline_edit_def handleUpdateCommission_def Let_def)
  have v: "(\<forall>v. e = E_amount_before_vat v \<longrightarrow> amount_before_vat (recalculate (apply_edit entry e)) = v)
    \<and> (\<forall>v. e = E_cost_before_vat v \<longrightarrow> cost_before_vat (recalculate (apply_edit entry e)) = v)
    \<and> (\<forall>v. e = E_commission_rate v \<longrightarrow> commission_rate (recalculate (apply_edit entry e)) = v)
    \<and> (\<forall>v. e = E_invoice_number v \<longrightarrow> invoice_number (recalculate (apply_edit entry e)) = v)"
    by (auto simp: recalculate_def Let_def)
  show ?thesis using u f q c v derived_ok_recalculate by blast
qed

theorem C9_invalid_edit_applied_witness:
  "map amount_before_vat
     (inline_edit False MOCK_ENTRIES None ''3'' (E_amount_before_vat (- 10)) MOCK_ENTRIES)
     = [5000, 12000, - 10]
   \<and> map net_total
     (inline_edit False MOCK_ENTRIES None ''3'' (E_amount_before_vat (- 10)) MOCK_ENTRIES)
     = [4500, 12000, - 10]
   \<and> invalidFields (handleInlineUpdate False MOCK_ENTRIES Map.empty None ''3''
        (E_amount_before_vat (- 10))) (''3'', F_amount_before_vat) = Some True
   \<and> map invoice_number
     (inline_edit False MOCK_ENTRIES None ''3'' (E_invoice_number []) MOCK_ENTRIES)
     = [''INV-2023-001'', ''INV-2023-005'', []]"
proof -
  have n: "\<not> False" by simp
  have va: "\<not> validateField (E_amount_before_vat (- 10))" by simp
  have vi: "\<not> validateField (E_invoice_number [])" by simp
  note a = C9_invalid_edit_applied[OF n find_mock_3 va, where promptAnswer = None
      and commissions = MOCK_ENTRIES and invalid = Map.empty]
  note b = C9_invalid_edit_applied[OF n find_mock_3 vi, where promptAnswer = None
      and commissions = MOCK_ENTRIES and invalid = Map.empty]
  have a1: "inline_edit False MOCK_ENTRIES None ''3'' (E_amount_before_vat (- 10)) MOCK_ENTRIES
      = map (\<lambda>c. if id' c = ''3'' then recalculate (apply_edit MOCK_ENTRY_3 (E_amount_before_vat (- 10)))
                  else c) MOCK_ENTRIES"
    using a by blast
  have a2: "invalidFields (handleInlineUpdate False MOCK_ENTRIES Map.empty None ''3''
        (E_amount_before_vat (- 10))) (''3'', F_amount_before_vat) = Some True"
    using a by simp
  have b1: "inline_edit False MOCK_ENTRIES None ''3'' (E_invoice_number []) MOCK_ENTRIES
      = map (\<lambda>c. if id' c = ''3'' then recalculate (apply_edit MOCK_ENTRY_3 (E_invoice_number []))
                  else c) MOCK_ENTRIES"
    using b by blast
  have m: "map amount_before_vat MOCK_ENTRIES = [5000, 12000, 8000]"
     "map net_total MOCK_ENTRIES = [4500, 12000, 8000]"
     "map invoice_number MOCK_ENTRIES = [''INV-2023-001'', ''INV-2023-005'', ''INV-2023-999'']"
     "cost_before_vat MOCK_ENTRY_3 = 0"
    by (simp_all add: MOCK_ENTRIES_def MOCK_ENTRY_1_def MOCK_ENTRY_2_def MOCK_ENTRY_3_def)
  show ?thesis
    unfolding a1 b1 using a2 m
    by (simp add: MOCK_ENTRIES_def mock_ids recalculate_def Let_def edited_values)
qed

section \<open>Sorting\<close>

lemma mock_receipt_number:
  "get_field F_receipt_number MOCK_ENTRY_1 = Some (KStr ''TI20230099'')"
  "get_field F_receipt_number MOCK_ENTRY_2 = None"
  by (simp_all add: MOCK_ENTRY_1_def MOCK_ENTRY_2_def)

lemma mock_net_to_pay:
  "get_field F_net_to_pay MOCK_ENTRY_1 = Some (KNum 225)"
  "get_field F_net_to_pay MOCK_ENTRY_2 = Some (KNum 600)"
  by (simp_all add: MOCK_ENTRY_1_def MOCK_ENTRY_2_def)

text \<open>
  C4. The comparator of the single-column sort: two equal key values give 0; an entry
  whose key value is undefined is put after one whose value is defined (1 when it is the
  first argument, -1 when it is the second), in both directions; when both values are
  defined and differ, the descending result is the negation of the ascending one, and in
  every other case the direction makes no difference.
\<close>

theorem C4_sort_comparator:
  "(get_field key a = get_field key b \<longrightarrow> sort_comparator key dir a b = 0)
   \<and> (get_field key a = None \<and> get_field key b \<noteq> None \<longrightarrow> sort_comparator key dir a b = 1)
   \<and> (get_field key a \<noteq> None \<and> get_field key b = None \<longrightarrow> sort_comparator key dir a b = - 1)
   \<and> (get_field key a \<noteq> None \<and> get_field key b \<noteq> None \<and> get_field key a \<noteq> get_field key b
        \<longrightarrow> sort_comparator key desc a b = - sort_comparator key asc a b
          \<and> sort_comparator key asc a b \<noteq> 0)
   \<and> (get_field key a = None \<or> get_field key b = None \<or> get_field key a = get_field key b
        \<longrightarrow> sort_comparator key desc a b = sort_comparator key asc a b)"
  by (cases "get_field key a"; cases "get_field key b")
     (auto simp: sort_comparator_def Let_def)

theorem C4_sort_comparator_witness:
  "sort_comparator F_receipt_number asc MOCK_ENTRY_2 MOCK_ENTRY_1 = 1
   \<and> sort_comparator F_receipt_number desc MOCK_ENTRY_2 MOCK_ENTRY_1 = 1
   \<and> sort_comparator F_receipt_number asc MOCK_ENTRY_1 MOCK_ENTRY_2 = - 1
   \<and> sort_comparator F_receipt_number desc MOCK_ENTRY_1 MOCK_ENTRY_2 = - 1
   \<and> sort_comparator F_net_to_pay asc MOCK_ENTRY_1 MOCK_ENTRY_2 = - 1
   \<and> sort_comparator F_net_to_pay desc MOCK_ENTRY_1 MOCK_ENTRY_2 = 1
   \<and> sort_comparator F_net_to_pay desc MOCK_ENTRY_1 MOCK_ENTRY_1 = 0"
proof -
  have u: "sort_comparator F_receipt_number dir MOCK_ENTRY_2 MOCK_ENTRY_1 = 1" for dir
    using C4_sort_comparator[of F_receipt_number MOCK_ENTRY_2 MOCK_ENTRY_1 dir]
    unfolding mock_receipt_number by simp
  have d: "sort_comparator F_receipt_number dir MOCK_ENTRY_1 MOCK_ENTRY_2 = - 1" for dir
    using C4_sort_comparator[of F_receipt_number MOCK_ENTRY_1 MOCK_ENTRY_2 dir]
    unfolding mock_receipt_number by simp
  have a: "sort_comparator F_net_to_pay asc MOCK_ENTRY_1 MOCK_ENTRY_2 = - 1"
    unfolding sort_comparator_def mock_net_to_pay by simp
  have f: "sort_comparator F_net_to_pay desc MOCK_ENTRY_1 MOCK_ENTRY_2 = 1"
    using C4_sort_comparator[of F_net_to_pay MOCK_ENTRY_1 MOCK_ENTRY_2 asc] a
    unfolding mock_net_to_pay by simp
  have z: "sort_comparator F_net_to_pay desc MOCK_ENTRY_1 MOCK_ENTRY_1 = 0"
    using C4_sort_comparator[of F_net_to_pay MOCK_ENTRY_1 MOCK_ENTRY_1 desc] by simp
  show ?thesis using u d a f z by simp
qed

section \<open>Export\<close>

lemma reduce_sum_eq: "reduce_sum f es = js_sum (map f es)"
  by (simp add: reduce_sum_def js_sum_def foldl_map)

lemma mock_length: "length MOCK_ENTRIES = 3"
  by (simp add: MOCK_ENTRIES_def)

text \<open>
  C5. The export writes no file exactly when the view is empty or has more than 5000
  rows; for a view of 1 to 5000 rows it writes one. (The handler sets no state in either
  case; on more than 5000 rows it shows an alert.)
\<close>

theorem C5_export_guard:
  "(written (handleExport localeDate localeMonth profiles allowUserFilter vm monthFilter
       filteredEntries) = None)
   = (length filteredEntries = 0 \<or> length filteredEntries > 5000)"
  by (simp add: handleExport_def Let_def)

theorem C5_export_guard_witness:
  "written (handleExport (\<lambda>d. d) (\<lambda>d. d) MOCK_PROFILES False personal [] []) = None
   \<and> written (handleExport (\<lambda>d. d) (\<lambda>d. d) MOCK_PROFILES False personal []
        (replicate 5001 MOCK_ENTRY_1)) = None
   \<and> written (handleExport (\<lambda>d. d) (\<lambda>d. d) MOCK_PROFILES False personal [] MOCK_ENTRIES) \<noteq> None"
  using C5_export_guard[of "\<lambda>d. d" "\<lambda>d. d" MOCK_PROFILES False personal "[]" "[]"]
    C5_export_guard[of "\<lambda>d. d" "\<lambda>d. d" MOCK_PROFILES False personal "[]" "replicate 5001 MOCK_ENTRY_1"]
    C5_export_guard[of "\<lambda>d. d" "\<lambda>d. d" MOCK_PROFILES False personal "[]" MOCK_ENTRIES]
  by (simp add: mock_length)

lemma export_row_cells:
  "map_of (export_row localeDate localeMonth profiles allowUserFilter vm e) ''Invoice Number'' = Some (CStr (invoice_number e))"
  "map_of (export_row localeDate localeMonth profiles allowUserFilter vm e) ''Receipt Number'' = Some (CStr (str_or (receipt_number e) []))"
  "map_of (export_row localeDate localeMonth profiles allowUserFilter vm e) ''Customer'' = Some (CStr (customer e))"
  "map_of (export_row localeDate localeMonth profiles allowUserFilter vm e) ''Project'' = Some (CStr (project e))"
  "map_of (export_row localeDate localeMonth profiles allowUserFilter vm e) ''Amount Before VAT'' = Some (CNum (amount_before_vat e))"
  "map_of (export_row localeDate localeMonth profiles allowUserFilter vm e) ''Cost Before VAT'' = Some (CNum (cost_before_vat e))"
  "map_of (export_row localeDate localeMonth profiles allowUserFilter vm e) ''Commission Rate (%)'' = Some (CNum (commission_rate e))"
  "map_of (export_row localeDate localeMonth profiles allowUserFilter vm e) ''Net Total'' = Some (CNum (net_total e))"
  "map_of (export_row localeDate localeMonth profiles allowUserFilter vm e) ''Net to Pay'' = Some (CNum (net_to_pay e))"
  "map_of (export_row localeDate localeMonth profiles allowUserFilter vm e) ''Tax'' = Some (CNum (tax e))"
  "map_of (export_row localeDate localeMonth profiles allowUserFilter vm e) ''Invoice Month'' = Some (CStr (fmtMonth localeMonth (invoice_month e)))"
  "map_of (export_row localeDate localeMonth profiles allowUserFilter vm e) ''Client Paid Date'' = Some (CStr (fmtDate localeDate (client_paid_date e)))"
  "map_of (export_row localeDate localeMonth profiles allowUserFilter vm e) ''Status'' = Some (CStr (status_string (commission_status e)))"
  "map_of (export_row localeDate localeMonth profiles allowUserFilter vm e) ''Company Paid Date'' = Some (CStr (fmtDate localeDate (company_paid_date e)))"
  "map_of (export_row localeDate localeMonth profiles allowUserFilter vm e) ''Note'' = Some (CStr (str_or (note' e) []))"
  by (simp_all add: export_row_def)

lemma export_row_freelancer:
  "map_of (export_row localeDate localeMonth profiles allowUserFilter vm e) ''Freelancer''
   = (if allowUserFilter \<or> vm = team then Some (CStr (getUserName profiles (user_id e))) else None)"
  by (simp add: export_row_def)

lemma totalsRow_numeric:
  "map_of (totalsRow allowUserFilter vm es) ''Amount Before VAT'' = Some (CNum (js_sum (map amount_before_vat es)))"
  "map_of (totalsRow allowUserFilter vm es) ''Cost Before VAT'' = Some (CNum (js_sum (map cost_before_vat es)))"
  "map_of (totalsRow allowUserFilter vm es) ''Net Total'' = Some (CNum (js_sum (map net_total es)))"
  "map_of (totalsRow allowUserFilter vm es) ''Net to Pay'' = Some (CNum (js_sum (map net_to_pay es)))"
  "map_of (totalsRow allowUserFilter vm es) ''Tax'' = Some (CNum (js_sum (map tax es)))"
  by (simp_all add: totalsRow_def reduce_sum_eq)

lemma totalsRow_blank:
  "map_of (totalsRow allowUserFilter vm es) ''Customer'' = Some (CStr [])"
  "map_of (totalsRow allowUserFilter vm es) ''Project'' = Some (CStr [])"
  "map_of (totalsRow allowUserFilter vm es) ''Invoice Month'' = Some (CStr [])"
  "map_of (totalsRow allowUserFilter vm es) ''Client Paid Date'' = Some (CStr [])"
  "map_of (totalsRow allowUserFilter vm es) ''Company Paid Date'' = Some (CStr [])"
  "map_of (totalsRow allowUserFilter vm es) ''Status'' = Some (CStr [])"
  "map_of (totalsRow allowUserFilter vm es) ''Commission Rate (%)'' = Some (CStr [])"
  "map_of (totalsRow allowUserFilter vm es) ''Note'' = Some (CStr [])"
  by (simp_all add: totalsRow_def)

lemma totalsRow_keys:
  "map fst (totalsRow allowUserFilter vm es)
   = map fst (export_row localeDate localeMonth profiles allowUserFilter vm e)"
  by (simp add: totalsRow_def export_row_def)

text \<open>
  C6 (as the code has it). When the export writes a file, its rows are the rows of the
  filtered entries, one per entry and in their order, each showing the fields of its
  entry column by column, followed by one totals row. The totals row has the columns of
  an entry row; its Amount Before VAT, Cost Before VAT, Net Total, Net to Pay and Tax
  cells are the sums of those fields over the filtered entries as \<open>reduce\<close> computes
  them, from the first entry on and each addition in double arithmetic; and its
  customer, project, date, status, rate and note cells are empty strings.
\<close>

theorem C6_export_rows:
  assumes "filteredEntries \<noteq> []" and "length filteredEntries \<le> 5000"
    and "entryRows = map (export_row localeDate localeMonth profiles allowUserFilter vm) filteredEntries"
    and "totals = totalsRow allowUserFilter vm filteredEntries"
  shows "map_option data (written (handleExport localeDate localeMonth profiles allowUserFilter vm
            monthFilter filteredEntries))
         = Some (entryRows @ [totals])
    \<and> length entryRows = length filteredEntries
    \<and> column ''Invoice Number'' entryRows = map (\<lambda>e. Some (CStr (invoice_number e))) filteredEntries
    \<and> column ''Receipt Number'' entryRows = map (\<lambda>e. Some (CStr (str_or (receipt_number e) []))) filteredEntries
    \<and> column ''Customer'' entryRows = map (\<lambda>e. Some (CStr (customer e))) filteredEntries
    \<and> column ''Project'' entryRows = map (\<lambda>e. Some (CStr (project e))) filteredEntries
    \<and> column ''Amount Before VAT'' entryRows = map (\<lambda>e. Some (CNum (amount_before_vat e))) filteredEntries
    \<and> column ''Cost Before VAT'' entryRows = map (\<lambda>e. Some (CNum (cost_before_vat e))) filteredEntries
    \<and> column ''Commission Rate (%)'' entryRows = map (\<lambda>e. Some (CNum (commission_rate e))) filteredEntries
    \<and> column ''Net Total'' entryRows = map (\<lambda>e. Some (CNum (net_total e))) filteredEntries
    \<and> column ''Net to Pay'' entryRows = map (\<lambda>e. Some (CNum (net_to_pay e))) filteredEntries
    \<and> column ''Tax'' entryRows = map (\<lambda>e. Some (CNum (tax e))) filteredEntries
    \<and> column ''Invoice Month'' entryRows = map (\<lambda>e. Some (CStr (fmtMonth localeMonth (invoice_month e)))) filteredEntries
    \<and> column ''Client Paid Date'' entryRows = map (\<lambda>e. Some (CStr (fmtDate localeDate (client_paid_date e)))) filteredEntries
    \<and> column ''Status'' entryRows = map (\<lambda>e. Some (CStr (status_string (commission_status e)))) filteredEntries
    \<and> column ''Company Paid Date'' entryRows = map (\<lambda>e. Some (CStr (fmtDate localeDate (company_paid_date e)))) filteredEntries
    \<and> column ''Note'' entryRows = map (\<lambda>e. Some (CStr (str_or (note' e) []))) filteredEntries
    \<and> column ''Freelancer'' entryRows
        = map (\<lambda>e. if allowUserFilter \<or> vm = team
                     then Some (CStr (getUserName profiles (user_id e))) else None) filteredEntries
    \<and> map_of totals ''Amount Before VAT'' = Some (CNum (js_sum (map amount_before_vat filteredEntries)))
    \<and> map_of totals ''Cost Before VAT'' = Some (CNum (js_sum (map cost_before_vat filteredEntries)))
    \<and> map_of totals ''Net Total'' = Some (CNum (js_sum (map net_total filteredEntries)))
    \<and> map_of totals ''Net to Pay'' = Some (CNum (js_sum (map net_to_pay filteredEntries)))
    \<and> map_of totals ''Tax'' = Some (CNum (js_sum (map tax filteredEntries)))
    \<and> map (map_of totals)
          [''Customer'', ''Project'', ''Invoice Month'', ''Client Paid Date'',
           ''Company Paid Date'', ''Status'', ''Commission Rate (%)'', ''Note'']
        = replicate 8 (Some (CStr []))
    \<and> map fst totals
        = map fst (export_row localeDate localeMonth profiles allowUserFilter vm (hd filteredEntries))"
proof -
  have d: "map_option data (written (handleExport localeDate localeMonth profiles allowUserFilter vm
            monthFilter filteredEntries))
         = Some (entryRows @ [totals])"
    using assms by (simp add: handleExport_def Let_def)
  have c: "column k entryRows
        = map (\<lambda>e. map_of (export_row localeDate localeMonth profiles allowUserFilter vm e) k)
            filteredEntries" for k
    unfolding assms(3) column_def by (simp add: comp_def)
  have b: "map (map_of totals)
          [''Customer'', ''Project'', ''Invoice Month'', ''Client Paid Date'',
           ''Company Paid Date'', ''Status'', ''Commission Rate (%)'', ''Note'']
        = replicate 8 (Some (CStr []))"
    unfolding assms(4) by (simp add: totalsRow_blank numeral_eq_Suc)
  have l: "length entryRows = length filteredEntries"
    unfolding assms(3) by simp
  have k: "map fst totals
        = map fst (export_row localeDate localeMonth profiles allowUserFilter vm (hd filteredEntries))"
    unfolding assms(4) by (rule totalsRow_keys)
  show ?thesis
    unfolding c export_row_cells export_row_freelancer
    using d b l k totalsRow_numeric[of allowUserFilter vm filteredEntries, folded assms(4)]
    by simp
qed

lemma mock_sums:
  "js_sum (map amount_before_vat MOCK_ENTRIES) = 25000"
  "js_sum (map cost_before_vat MOCK_ENTRIES) = 500"
  "js_sum (map net_total MOCK_ENTRIES) = 24500"
  "js_sum (map net_to_pay MOCK_ENTRIES) = 1225"
  "js_sum (map tax MOCK_ENTRIES) = 0"
  unfolding MOCK_ENTRIES_def MOCK_ENTRY_1_def MOCK_ENTRY_2_def MOCK_ENTRY_3_def js_sum_def
  by (simp_all add: double_eval)

theorem C6_export_rows_witness:
  "map_option (length \<circ> data)
     (written (handleExport (\<lambda>d. d) (\<lambda>d. d) MOCK_PROFILES False personal [] MOCK_ENTRIES)) = Some 4
   \<and> column ''Net to Pay'' (map (export_row (\<lambda>d. d) (\<lambda>d. d) MOCK_PROFILES False personal) MOCK_ENTRIES)
      = [Some (CNum 225), Some (CNum 600), Some (CNum 400)]
   \<and> map (map_of (totalsRow False personal MOCK_ENTRIES))
        [''Amount Before VAT'', ''Cost Before VAT'', ''Net Total'', ''Net to Pay'', ''Tax'']
      = [Some (CNum 25000), Some (CNum 500), Some (CNum 24500), Some (CNum 1225), Some (CNum 0)]"
proof -
  have ne: "MOCK_ENTRIES \<noteq> []" by (simp add: MOCK_ENTRIES_def)
  have le: "length MOCK_ENTRIES \<le> 5000" by (simp add: mock_length)
  note t = C6_export_rows[OF ne le refl refl, of "\<lambda>d. d" "\<lambda>d. d" MOCK_PROFILES False personal "[]"]
  have d: "map_option data
      (written (handleExport (\<lambda>d. d) (\<lambda>d. d) MOCK_PROFILES False personal [] MOCK_ENTRIES))
      = Some (map (export_row (\<lambda>d. d) (\<lambda>d. d) MOCK_PROFILES False personal) MOCK_ENTRIES
              @ [totalsRow False personal MOCK_ENTRIES])"
    using t by blast
  have l: "map_option (length \<circ> data)
     (written (handleExport (\<lambda>d. d) (\<lambda>d. d) MOCK_PROFILES False personal [] MOCK_ENTRIES)) = Some 4"
    using d by (auto simp: mock_length)
  have n: "column ''Net to Pay'' (map (export_row (\<lambda>d. d) (\<lambda>d. d) MOCK_PROFILES False personal) MOCK_ENTRIES)
      = map (\<lambda>e. Some (CNum (net_to_pay e))) MOCK_ENTRIES"
    using t by blast
  have n': "map (\<lambda>e. Some (CNum (net_to_pay e))) MOCK_ENTRIES
      = [Some (CNum 225), Some (CNum 600), Some (CNum 400)]"
    by (simp add: MOCK_ENTRIES_def MOCK_ENTRY_1_def MOCK_ENTRY_2_def MOCK_ENTRY_3_def)
  have s: "map (map_of (totalsRow False personal MOCK_ENTRIES))
        [''Amount Before VAT'', ''Cost Before VAT'', ''Net Total'', ''Net to Pay'', ''Tax'']
      = [Some (CNum 25000), Some (CNum 500), Some (CNum 24500), Some (CNum 1225), Some (CNum 0)]"
    using t by (simp add: mock_sums)
  show ?thesis using l n n' s by simp
qed

lemma small_sum:
  "js_add (js_add 0 (to_double (1 / 10))) (to_double (2 / 10))
     = to_double (1 / 10) + to_double (2 / 10) + 1 / 2 ^ 55"
  by (simp add: double_eval)

text \<open>
  The claim as the specification words it fails where the sum of a column is not a
  double: for two entries of 0.1 and 0.2 the Amount Before VAT cell of the totals row is
  the rounded sum, above the sum of the two amounts.
\<close>

theorem C6_rounded_sum_counterexample:
  "map_option (last \<circ> data)
     (written (handleExport (\<lambda>d. d) (\<lambda>d. d) MOCK_PROFILES False personal [] EXAMPLE_SMALL))
     = Some (totalsRow False personal EXAMPLE_SMALL)
   \<and> map amount_before_vat EXAMPLE_SMALL = [to_double (1 / 10), to_double (2 / 10)]
   \<and> map_of (totalsRow False personal EXAMPLE_SMALL) ''Amount Before VAT''
     = Some (CNum (sum_list (map amount_before_vat EXAMPLE_SMALL) + 1 / 2 ^ 55))"
proof -
  have a: "map amount_before_vat EXAMPLE_SMALL = [to_double (1 / 10), to_double (2 / 10)]"
    by (simp add: EXAMPLE_SMALL_def)
  have w: "map_option (last \<circ> data)
     (written (handleExport (\<lambda>d. d) (\<lambda>d. d) MOCK_PROFILES False personal [] EXAMPLE_SMALL))
     = Some (totalsRow False personal EXAMPLE_SMALL)"
    by (simp add: handleExport_def Let_def EXAMPLE_SMALL_def)
  have j: "js_sum (map amount_before_vat EXAMPLE_SMALL)
        = js_add (js_add 0 (to_double (1 / 10))) (to_double (2 / 10))"
    unfolding a js_sum_def by (simp only: foldl.simps)
  have e: "sum_list (map amount_before_vat EXAMPLE_SMALL) = to_double (1 / 10) + to_double (2 / 10)"
    unfolding a by simp
  have "js_sum (map amount_before_vat EXAMPLE_SMALL)
        = sum_list (map amount_before_vat EXAMPLE_SMALL) + 1 / 2 ^ 55"
    unfolding j e by (rule small_sum)
  then have t: "map_of (totalsRow False personal EXAMPLE_SMALL) ''Amount Before VAT''
     = Some (CNum (sum_list (map amount_before_vat EXAMPLE_SMALL) + 1 / 2 ^ 55))"
    by (simp only: totalsRow_numeric)
  show ?thesis using a w t by blast
qed

section \<open>Currency conversion in the review mapping\<close>

lemma toFixed_cents_near:
  fixes y :: rat
  shows "\<bar>of_int (toFixed_cents y) / 100 - y\<bar> \<le> 1 / 200"
proof -
  define k :: rat where "k = of_int \<lfloor>y * 100 + 1 / 2\<rfloor>"
  have a: "k \<le> y * 100 + 1 / 2" unfolding k_def by (rule of_int_floor_le)
  have b: "y * 100 + 1 / 2 < k + 1"
    unfolding k_def using floor_correct[of "y * 100 + 1 / 2"] by simp
  have "k / 100 - y \<le> 1 / 200" using a by (simp add: field_simps)
  moreover have "- (1 / 200) \<le> k / 100 - y" using b by (simp add: field_simps)
  ultimately have "\<bar>k / 100 - y\<bar> \<le> 1 / 200" by linarith
  then show ?thesis unfolding k_def toFixed_cents_def .
qed

lemma toFixed2_in_range:
  assumes "0 \<le> x" and "x < 10 ^ 21"
  shows "toFixed2 x = to_double (of_int (toFixed_cents x) / 100)"
  using assms by (simp add: toFixed2_def)

lemma rates_nonzero: "EXCHANGE_RATES c = Some r \<Longrightarrow> r \<noteq> 0"
  by (auto simp: EXCHANGE_RATES_def double_eval split: if_splits)

lemma map_item_conv:
  "d_amount_before_vat (map_item user now_iso parse_date item) = fst (convert_amount item)"
  "conversionInfo (map_item user now_iso parse_date item) = snd (convert_amount item)"
  by (simp_all add: map_item_def Let_def)

lemma convert_absent:
  "\<not> truthy_str (raw_currency_code item) \<Longrightarrow>
   convert_amount item = (num_or (raw_amount_before_vat item) 0, None)"
  by (auto simp: convert_amount_def truthy_str_def str_or_def Let_def toUpperCase_def
      upper_char_def split: option.splits)

lemma convert_recognized:
  assumes "raw_currency_code item = Some code" and "code \<noteq> []"
    and "toUpperCase code \<noteq> ''THB''" and "EXCHANGE_RATES (toUpperCase code) = Some r"
    and "num_or (raw_amount_before_vat item) 0 > 0"
  shows "convert_amount item =
     (toFixed2 (js_mul (num_or (raw_amount_before_vat item) 0) r),
      Some \<lparr>originalCurrency = toUpperCase code,
            originalAmount = num_or (raw_amount_before_vat item) 0, rate = r\<rparr>)"
  using assms rates_nonzero[OF assms(4)]
  by (simp add: convert_amount_def str_or_def Let_def)

lemma convert_unrecognized:
  assumes "raw_currency_code item = Some code" and "EXCHANGE_RATES (toUpperCase code) = None"
  shows "convert_amount item = (num_or (raw_amount_before_vat item) 0, None)"
proof (cases "code = []")
  case True
  then show ?thesis using assms(1) by (intro convert_absent) (simp add: truthy_str_def)
next
  case False
  then show ?thesis using assms by (simp add: convert_amount_def str_or_def Let_def)
qed

lemma convert_nonpositive:
  "num_or (raw_amount_before_vat item) 0 \<le> 0 \<Longrightarrow>
   convert_amount item = (num_or (raw_amount_before_vat item) 0, None)"
  by (simp add: convert_amount_def Let_def)

lemma upper_USD: "toUpperCase ''USD'' = ''USD''"
  by code_simp

lemma rate_USD: "EXCHANGE_RATES ''USD'' = Some (69 / 2)"
  by (simp add: EXCHANGE_RATES_def double_eval)

lemma hundred_USD: "toFixed2 (js_mul 100 (69 / 2)) = 3450"
  by (simp add: toFixed2_def toFixed_cents_def double_eval)

lemma eleven_cents:
  "to_double (11 / 100) \<noteq> 0"
  "0 < to_double (11 / 100)"
  "toFixed2 (js_mul (to_double (11 / 100)) (69 / 2)) = to_double (379 / 100)"
  "toFixed_cents (to_double (11 / 100) * (69 / 2)) = 380"
  "toFixed_cents (js_mul (to_double (11 / 100)) (69 / 2)) = 379"
  by (simp_all add: toFixed2_def toFixed_cents_def double_eval)

text \<open>
  C7 (as the code has it). For a raw record mapped into a draft item, with the amount
  read as 0 when it is missing: if \<open>currency_code\<close> is absent or empty, the amount is
  kept and there is no conversion information; if the code, in upper case, is not THB and
  is in the rate table, and the amount is positive, the draft amount is
  \<open>Number((amount * rate).toFixed(2))\<close>, product and result in double arithmetic, and the
  conversion information holds the code, the original amount and the rate; if the code
  is not in the table, or the amount is zero or negative, the amount is kept and there is
  no conversion information. For \<open>0 \<le> x < 10^21\<close>, \<open>toFixed2 x\<close> is the double nearest to
  the whole number of hundredths that is within half a hundredth of \<open>x\<close>.
\<close>

theorem C7_currency_conversion:
  "(\<not> truthy_str (raw_currency_code item) \<longrightarrow>
      d_amount_before_vat (map_item user now_iso parse_date item)
        = num_or (raw_amount_before_vat item) 0
      \<and> conversionInfo (map_item user now_iso parse_date item) = None)
   \<and> (raw_currency_code item = Some code \<and> code \<noteq> [] \<and> toUpperCase code \<noteq> ''THB''
        \<and> EXCHANGE_RATES (toUpperCase code) = Some r
        \<and> num_or (raw_amount_before_vat item) 0 > 0 \<longrightarrow>
      d_amount_before_vat (map_item user now_iso parse_date item)
        = toFixed2 (js_mul (num_or (raw_amount_before_vat item) 0) r)
      \<and> conversionInfo (map_item user now_iso parse_date item)
        = Some \<lparr>originalCurrency = toUpperCase code,
                 originalAmount = num_or (raw_amount_before_vat item) 0, rate = r\<rparr>)
   \<and> (raw_currency_code item = Some code \<and> EXCHANGE_RATES (toUpperCase code) = None \<longrightarrow>
      d_amount_before_vat (map_item user now_iso parse_date item)
        = num_or (raw_amount_before_vat item) 0
      \<and> conversionInfo (map_item user now_iso parse_date item) = None)
   \<and> (num_or (raw_amount_before_vat item) 0 \<le> 0 \<longrightarrow>
      d_amount_before_vat (map_item user now_iso parse_date item)
        = num_or (raw_amount_before_vat item) 0
      \<and> conversionInfo (map_item user now_iso parse_date item) = None)
   \<and> (0 \<le> x \<and> x < 10 ^ 21 \<longrightarrow>
      toFixed2 x = to_double (of_int (toFixed_cents x) / 100)
      \<and> \<bar>of_int (toFixed_cents x) / 100 - x\<bar> \<le> 1 / 200)"
  using convert_absent[of item] convert_recognized[of item code r]
    convert_unrecognized[of item code] convert_nonpositive[of item]
    toFixed2_in_range[of x] toFixed_cents_near[of x]
  by (simp add: map_item_conv)

theorem C7_currency_conversion_witness:
  "d_amount_before_vat (map_item EXAMPLE_USER ''2023-12-24T10:00:00.000Z'' Some
      \<lparr>raw_invoice_number = Some ''INV-7'', raw_receipt_number = None,
       raw_customer = Some ''Acme Corp'', raw_amount_before_vat = Some 100,
       raw_currency_code = Some ''USD'', raw_invoice_date = None,
       raw_project_description = None\<rparr>) = 3450
   \<and> conversionInfo (map_item EXAMPLE_USER ''2023-12-24T10:00:00.000Z'' Some
      \<lparr>raw_invoice_number = Some ''INV-7'', raw_receipt_number = None,
       raw_customer = Some ''Acme Corp'', raw_amount_before_vat = Some 100,
       raw_currency_code = Some ''USD'', raw_invoice_date = None,
       raw_project_description = None\<rparr>)
      = Some \<lparr>originalCurrency = ''USD'', originalAmount = 100, rate = 34.5\<rparr>
   \<and> d_amount_before_vat (map_item EXAMPLE_USER ''2023-12-24T10:00:00.000Z'' Some
      \<lparr>raw_invoice_number = Some ''INV-8'', raw_receipt_number = None,
       raw_customer = Some ''Acme Corp'', raw_amount_before_vat = Some (to_double (11 / 100)),
       raw_currency_code = Some ''USD'', raw_invoice_date = None,
       raw_project_description = None\<rparr>)
      = to_double (379 / 100)"
proof -
  note a = C7_currency_conversion[of
      "\<lparr>raw_invoice_number = Some ''INV-7'', raw_receipt_number = None,
       raw_customer = Some ''Acme Corp'', raw_amount_before_vat = Some 100,
       raw_currency_code = Some ''USD'', raw_invoice_date = None,
       raw_project_description = None\<rparr>"
      EXAMPLE_USER "''2023-12-24T10:00:00.000Z''" Some "''USD''" "69 / 2" 0]
  have a': "d_amount_before_vat (map_item EXAMPLE_USER ''2023-12-24T10:00:00.000Z'' Some
      \<lparr>raw_invoice_number = Some ''INV-7'', raw_receipt_number = None,
       raw_customer = Some ''Acme Corp'', raw_amount_before_vat = Some 100,
       raw_currency_code = Some ''USD'', raw_invoice_date = None,
       raw_project_description = None\<rparr>) = 3450
   \<and> conversionInfo (map_item EXAMPLE_USER ''2023-12-24T10:00:00.000Z'' Some
      \<lparr>raw_invoice_number = Some ''INV-7'', raw_receipt_number = None,
       raw_customer = Some ''Acme Corp'', raw_amount_before_vat = Some 100,
       raw_currency_code = Some ''USD'', raw_invoice_date = None,
       raw_project_description = None\<rparr>)
      = Some \<lparr>originalCurrency = ''USD'', originalAmount = 100, rate = 34.5\<rparr>"
    using a by (simp add: upper_USD rate_USD num_or_def hundred_USD)
  note b = C7_currency_conversion[of
      "\<lparr>raw_invoice_number = Some ''INV-8'', raw_receipt_number = None,
       raw_customer = Some ''Acme Corp'', raw_amount_before_vat = Some (to_double (11 / 100)),
       raw_currency_code = Some ''USD'', raw_invoice_date = None,
       raw_project_description = None\<rparr>"
      EXAMPLE_USER "''2023-12-24T10:00:00.000Z''" Some "''USD''" "69 / 2" 0]
  have b': "d_amount_before_vat (map_item EXAMPLE_USER ''2023-12-24T10:00:00.000Z'' Some
      \<lparr>raw_invoice_number = Some ''INV-8'', raw_receipt_number = None,
       raw_customer = Some ''Acme Corp'', raw_amount_before_vat = Some (to_double (11 / 100)),
       raw_currency_code = Some ''USD'', raw_invoice_date = None,
       raw_project_description = None\<rparr>)
      = to_double (379 / 100)"
    using b by (simp add: upper_USD rate_USD num_or_def eleven_cents)
  show ?thesis using a' b' by blast
qed

text \<open>
  The claim as the specification words it fails twice. For an amount that is not
  positive: a record of -100 USD keeps the amount -100 and gets no conversion
  information, although USD is in the table. And for the rounding: for a record of 0.11
  USD the exact product of the amount and the rate is nearest to 380 hundredths, but the
  double product is nearest to 379, and the draft amount is 3.79.
\<close>

theorem C7_negative_amount_counterexample:
  "EXCHANGE_RATES (toUpperCase ''USD'') = Some 34.5
   \<and> d_amount_before_vat (map_item EXAMPLE_USER ''2023-12-24T10:00:00.000Z'' Some
      \<lparr>raw_invoice_number = Some ''CN-7'', raw_receipt_number = None,
       raw_customer = Some ''Acme Corp'', raw_amount_before_vat = Some (- 100),
       raw_currency_code = Some ''USD'', raw_invoice_date = None,
       raw_project_description = None\<rparr>) = - 100
   \<and> conversionInfo (map_item EXAMPLE_USER ''2023-12-24T10:00:00.000Z'' Some
      \<lparr>raw_invoice_number = Some ''CN-7'', raw_receipt_number = None,
       raw_customer = Some ''Acme Corp'', raw_amount_before_vat = Some (- 100),
       raw_currency_code = Some ''USD'', raw_invoice_date = None,
       raw_project_description = None\<rparr>) = None
   \<and> toFixed_cents (to_double (11 / 100) * 34.5) = 380
   \<and> toFixed_cents (js_mul (to_double (11 / 100)) 34.5) = 379
   \<and> d_amount_before_vat (map_item EXAMPLE_USER ''2023-12-24T10:00:00.000Z'' Some
      \<lparr>raw_invoice_number = Some ''INV-8'', raw_receipt_number = None,
       raw_customer = Some ''Acme Corp'', raw_amount_before_vat = Some (to_double (11 / 100)),
       raw_currency_code = Some ''USD'', raw_invoice_date = None,
       raw_project_description = None\<rparr>)
      = to_double (379 / 100)"
proof -
  have n: "d_amount_before_vat (map_item EXAMPLE_USER ''2023-12-24T10:00:00.000Z'' Some
      \<lparr>raw_invoice_number = Some ''CN-7'', raw_receipt_number = None,
       raw_customer = Some ''Acme Corp'', raw_amount_before_vat = Some (- 100),
       raw_currency_code = Some ''USD'', raw_invoice_date = None,
       raw_project_description = None\<rparr>) = - 100
   \<and> conversionInfo (map_item EXAMPLE_USER ''2023-12-24T10:00:00.000Z'' Some
      \<lparr>raw_invoice_number = Some ''CN-7'', raw_receipt_number = None,
       raw_customer = Some ''Acme Corp'', raw_amount_before_vat = Some (- 100),
       raw_currency_code = Some ''USD'', raw_invoice_date = None,
       raw_project_description = None\<rparr>) = None"
    by (simp add: upper_USD rate_USD map_item_conv convert_amount_def num_or_def
        str_or_def Let_def)
  have c: "toFixed_cents (to_double (11 / 100) * 34.5) = 380"
    "toFixed_cents (js_mul (to_double (11 / 100)) 34.5) = 379"
    by (simp_all add: toFixed_cents_def double_eval)
  have r: "EXCHANGE_RATES (toUpperCase ''USD'') = Some 34.5"
    by (simp add: upper_USD rate_USD)
  have e: "d_amount_before_vat (map_item EXAMPLE_USER ''2023-12-24T10:00:00.000Z'' Some
      \<lparr>raw_invoice_number = Some ''INV-8'', raw_receipt_number = None,
       raw_customer = Some ''Acme Corp'', raw_amount_before_vat = Some (to_double (11 / 100)),
       raw_currency_code = Some ''USD'', raw_invoice_date = None,
       raw_project_description = None\<rparr>)
      = to_double (379 / 100)"
    by (simp add: upper_USD rate_USD map_item_conv convert_amount_def num_or_def
        str_or_def Let_def eleven_cents)
  show ?thesis using r n c e by blast
qed

section \<open>Duplicate invoice numbers\<close>






lemma mock_user_ids:
  "map user_id MOCK_ENTRIES = [''user-1'', ''user-1'', ''user-2'']"
  by (simp add: MOCK_ENTRIES_def MOCK_ENTRY_1_def MOCK_ENTRY_2_def MOCK_ENTRY_3_def)









section \<open>The upload queue\<close>

lemma slice0_take: "0 \<le> e \<Longrightarrow> slice0 e xs = take (nat e) xs"
  by (auto simp: slice0_def Let_def min_def)

lemma new_files:
  "map u_file (map (\<lambda>(n, file).
       \<lparr>u_id = uuid n, u_file = file, u_status = uploading, u_progress = 0,
        extractedData = None, errorMessage = None\<rparr>) (enumerate 0 xs)) = xs"
proof -
  have "(u_file \<circ> (\<lambda>(n, file).
       \<lparr>u_id = uuid n, u_file = file, u_status = uploading, u_progress = 0,
        extractedData = None, errorMessage = None\<rparr>)) = snd"
    by (rule ext) (simp add: case_prod_beta)
  then show ?thesis by simp
qed

lemma processFiles_newItems:
  "map u_file (newItems (processFiles uuid files queue))
   = filter is_pdf (slice0 (5 - int (length queue)) files)"
  using new_files[of uuid "filter is_pdf (slice0 (5 - int (length queue)) files)"]
  by (auto simp: processFiles_def Let_def)

lemma processFiles_queue:
  "queue_after (processFiles uuid files queue) = queue @ newItems (processFiles uuid files queue)"
  by (simp add: processFiles_def Let_def)

lemma processFiles_files:
  assumes "length queue \<le> 5"
  shows "map u_file (newItems (processFiles uuid files queue))
         = filter is_pdf (take (5 - length queue) files)"
  using assms by (simp only: processFiles_newItems) (simp add: slice0_take nat_diff_distrib')

lemma length_newItems:
  assumes "length queue \<le> 5"
  shows "length (newItems (processFiles uuid files queue)) \<le> 5 - length queue"
proof -
  have "length (newItems (processFiles uuid files queue))
        = length (map u_file (newItems (processFiles uuid files queue)))" by simp
  also have "\<dots> = length (filter is_pdf (take (5 - length queue) files))"
    by (simp only: processFiles_files[OF assms])
  also have "\<dots> \<le> length (take (5 - length queue) files)" by (rule length_filter_le)
  also have "\<dots> \<le> 5 - length queue" by simp
  finally show ?thesis .
qed

lemma reachable_length: "queue_reachable q \<Longrightarrow> length q \<le> 5"
proof (induction rule: queue_reachable.induct)
  case queue_init
  show ?case by simp
next
  case (queue_process q uuid files)
  then show ?case
    using length_newItems[of q uuid files] by (simp add: processFiles_queue)
next
  case (queue_remove q i)
  then show ?case
    using length_filter_le[of "\<lambda>x. u_id x \<noteq> i" q] unfolding removeQueueItem_def by linarith
next
  case (queue_update q i upd)
  then show ?case by (simp add: updateQueueItem_def)
qed

text \<open>
  C10. For every queue the component can hold and every list of files, after
  \<open>processFiles\<close> the queue has at most 5 items; it is the queue before followed by the
  new items; the new items are at most 5 minus the length of the queue before; their
  files are the PDF files among the first 5 minus that length of the given files, in
  order (the list is cut first and filtered after); and when there is no new item the
  queue is the one before.
\<close>

theorem C10_upload_queue:
  assumes "queue_reachable queue"
  shows "length (queue_after (processFiles uuid files queue)) \<le> 5
    \<and> queue_after (processFiles uuid files queue)
        = queue @ newItems (processFiles uuid files queue)
    \<and> length (newItems (processFiles uuid files queue)) \<le> 5 - length queue
    \<and> map u_file (newItems (processFiles uuid files queue))
        = filter is_pdf (take (5 - length queue) files)
    \<and> list_all (\<lambda>item. f_type (u_file item) = ''application/pdf'')
         (newItems (processFiles uuid files queue))
    \<and> (newItems (processFiles uuid files queue) = []
        \<longrightarrow> queue_after (processFiles uuid files queue) = queue)"
proof -
  have l: "length queue \<le> 5" by (rule reachable_length[OF assms])
  have a: "length (queue_after (processFiles uuid files queue)) \<le> 5"
    by (rule reachable_length[OF queue_process[OF assms]])
  note f = processFiles_files[OF l, of uuid files]
  have "list_all is_pdf (map u_file (newItems (processFiles uuid files queue)))"
    unfolding f by (simp add: list_all_iff)
  then have p: "list_all (\<lambda>item. f_type (u_file item) = ''application/pdf'')
         (newItems (processFiles uuid files queue))"
    by (simp add: list_all_iff is_pdf_def)
  show ?thesis
    using a f p length_newItems[OF l, of uuid files] processFiles_queue[of uuid files queue]
    by simp
qed

theorem C10_upload_queue_witness:
  "map (f_name \<circ> u_file) (queue_after (processFiles EXAMPLE_UUID EXAMPLE_FILES []))
     = [''a.pdf'', ''b.pdf'', ''c.pdf'', ''d.pdf'']
   \<and> queue_after (processFiles EXAMPLE_UUID EXAMPLE_FILES
        (queue_after (processFiles EXAMPLE_UUID EXAMPLE_FILES [])))
     = queue_after (processFiles EXAMPLE_UUID EXAMPLE_FILES [])"
proof -
  note t = C10_upload_queue[OF queue_init, of EXAMPLE_UUID EXAMPLE_FILES]
  have q: "queue_after (processFiles EXAMPLE_UUID EXAMPLE_FILES [])
           = newItems (processFiles EXAMPLE_UUID EXAMPLE_FILES [])"
    using t by simp
  have f: "map u_file (newItems (processFiles EXAMPLE_UUID EXAMPLE_FILES []))
           = filter is_pdf (take 5 EXAMPLE_FILES)"
    using t by simp
  have f4: "filter is_pdf (take 5 EXAMPLE_FILES)
           = [\<lparr>f_name = ''a.pdf'', f_type = ''application/pdf''\<rparr>,
              \<lparr>f_name = ''b.pdf'', f_type = ''application/pdf''\<rparr>,
              \<lparr>f_name = ''c.pdf'', f_type = ''application/pdf''\<rparr>,
              \<lparr>f_name = ''d.pdf'', f_type = ''application/pdf''\<rparr>]"
    by (simp add: EXAMPLE_FILES_def is_pdf_def)
  have n: "map (f_name \<circ> u_file) (queue_after (processFiles EXAMPLE_UUID EXAMPLE_FILES []))
     = map f_name (map u_file (newItems (processFiles EXAMPLE_UUID EXAMPLE_FILES [])))"
    unfolding q by simp
  have r1: "map (f_name \<circ> u_file) (queue_after (processFiles EXAMPLE_UUID EXAMPLE_FILES []))
     = [''a.pdf'', ''b.pdf'', ''c.pdf'', ''d.pdf'']"
    unfolding n f f4 by simp
  have len: "length (queue_after (processFiles EXAMPLE_UUID EXAMPLE_FILES [])) = 4"
    using arg_cong[OF r1, of length] by simp
  note t2 = C10_upload_queue[OF queue_process[OF queue_init], of EXAMPLE_UUID EXAMPLE_FILES
      EXAMPLE_UUID EXAMPLE_FILES]
  have "map u_file (newItems (processFiles EXAMPLE_UUID EXAMPLE_FILES
          (queue_after (processFiles EXAMPLE_UUID EXAMPLE_FILES []))))
        = filter is_pdf (take (5 - 4) EXAMPLE_FILES)"
    using t2 unfolding len by blast
  then have e: "newItems (processFiles EXAMPLE_UUID EXAMPLE_FILES
          (queue_after (processFiles EXAMPLE_UUID EXAMPLE_FILES []))) = []"
    by (simp add: EXAMPLE_FILES_def is_pdf_def)
  have r2: "queue_after (processFiles EXAMPLE_UUID EXAMPLE_FILES
        (queue_after (processFiles EXAMPLE_UUID EXAMPLE_FILES [])))
     = queue_after (processFiles EXAMPLE_UUID EXAMPLE_FILES [])"
    using t2 e by blast
  show ?thesis using r1 r2 by blast
qed


end
